theory Spec2Isabelle
  imports Main "HOL-Library.Word" "HOL-Library.Sublist"
begin

section \<open>JavaScript values used by the upload route\<close>

text \<open>
  A JavaScript string is a sequence of UTF-16 code units; \<open>str\<close> embeds an ASCII literal.
  \<open>undefined\<close> and \<open>null\<close> are \<open>None\<close>.
\<close>

type_synonym jstr = "nat list"

definition str :: "string \<Rightarrow> jstr" where
  "str s = map of_char s"

text \<open>Truthiness of a value that is a string, \<open>undefined\<close> or \<open>null\<close>, and \<open>a || b\<close> on such values.\<close>

definition truthy :: "jstr option \<Rightarrow> bool" where
  "truthy v = (case v of None \<Rightarrow> False | Some s \<Rightarrow> s \<noteq> [])"

definition jor :: "jstr option \<Rightarrow> jstr option \<Rightarrow> jstr option" where
  "jor a b = (if truthy a then a else b)"

text \<open>\<open>a || d\<close> where \<open>d\<close> is a string literal.\<close>

definition or_default :: "jstr option \<Rightarrow> jstr \<Rightarrow> jstr" where
  "or_default a d = (case a of None \<Rightarrow> d | Some s \<Rightarrow> if s = [] then d else s)"

text \<open>The code units matched by \<open>\s\<close> in a regular expression and stripped by \<open>trim()\<close>.\<close>

definition is_space :: "nat \<Rightarrow> bool" where
  "is_space c = (c \<in> {9, 10, 11, 12, 13, 32, 160, 5760, 8232, 8233, 8239, 8287, 12288, 65279}
                 \<or> (8192 \<le> c \<and> c \<le> 8202))"

definition trim :: "jstr \<Rightarrow> jstr" where
  "trim s = rev (dropWhile is_space (rev (dropWhile is_space s)))"

text \<open>\<open>s.replace(/^"+|"+$/g, "")\<close>: the leading and the trailing run of double quotes go.\<close>

definition strip_quotes :: "jstr \<Rightarrow> jstr" where
  "strip_quotes s = rev (dropWhile (\<lambda>c. c = 34) (rev (dropWhile (\<lambda>c. c = 34) s)))"

text \<open>\<open>s.replace(/\s+/g, "_")\<close>: every maximal run of white space becomes one underscore.\<close>

function replace_spaces :: "jstr \<Rightarrow> jstr" where
  "replace_spaces [] = []"
| "replace_spaces (c # cs) =
     (if is_space c then 95 # replace_spaces (dropWhile is_space cs)
      else c # replace_spaces cs)"
  by pat_completeness auto
termination
  by (relation "measure length") (auto simp: length_dropWhile_le less_Suc_eq_le)

text \<open>Decimal rendering of a non-negative integer, as a template literal prints it.\<close>

fun dec :: "nat \<Rightarrow> jstr" where
  "dec n = (if n < 10 then [48 + n] else dec (n div 10) @ [48 + n mod 10])"

declare dec.simps [simp del]

text \<open>A thrown error object: its \<open>name\<close> and its \<open>message\<close>, which may be missing.\<close>

datatype exn = Exn (error_name: jstr) (message: "jstr option")

definition Error :: "jstr \<Rightarrow> exn" where
  "Error msg = Exn (str ''Error'') (Some msg)"

definition TypeError :: "jstr \<Rightarrow> exn" where
  "TypeError msg = Exn (str ''TypeError'') (Some msg)"

text \<open>
  JSON values. A response body \<open>b\<close> stands for the text \<open>JSON.stringify(b)\<close>;
  object members keep their order.
\<close>

datatype json = JStr jstr | JArr "json list" | JObj "(jstr \<times> json) list"

fun field :: "json \<Rightarrow> jstr \<Rightarrow> json option" where
  "field (JObj kvs) k = map_of kvs k"
| "field _ k = None"

section \<open>The request, the environment and the object store\<close>

record File =
  file_name :: jstr
  file_type :: jstr
  file_bytes :: "8 word list"

text \<open>An entry of a multipart form is a string or a file.\<close>

datatype entry = Text jstr | Blob File

text \<open>\<open>req.formData()\<close> rejects or yields the entries in order; \<open>get\<close> returns the first of a name.\<close>

record request =
  formData :: "exn + (jstr \<times> entry) list"

definition form_get :: "(jstr \<times> entry) list \<Rightarrow> jstr \<Rightarrow> entry option" where
  "form_get form k = map_of form k"

text \<open>
  \<open>v || d\<close> on the result \<open>v\<close> of \<open>form.get\<close> and a string literal \<open>d\<close>: \<open>null\<close> and the empty
  string are falsy, a \<open>File\<close> is an object and truthy.
\<close>

definition entry_or :: "entry option \<Rightarrow> jstr \<Rightarrow> entry" where
  "entry_or v d =
     (case v of
        None \<Rightarrow> Text d
      | Some (Text s) \<Rightarrow> if s = [] then Text d else Text s
      | Some (Blob f) \<Rightarrow> Blob f)"

text \<open>\<open>JSON.stringify\<close> of a form entry: a \<open>File\<close> has no enumerable property of its own.\<close>

fun json_of_entry :: "entry \<Rightarrow> json" where
  "json_of_entry (Text s) = JStr s"
| "json_of_entry (Blob f) = JObj []"

type_synonym env = "jstr \<rightharpoonup> jstr"

record s3_config =
  endpoint :: jstr
  region :: jstr
  accessKeyId :: jstr
  secretAccessKey :: jstr
  forcePathStyle :: bool

datatype body = Bytes "8 word list" | Utf8Json json

datatype command =
    PutObjectCommand (Bucket: jstr) (Key: jstr) (Body: body) (ContentType: jstr)
  | HeadObjectCommand (Bucket: jstr) (Key: jstr)

record response_metadata =
  httpHeaders :: "(jstr \<rightharpoonup> jstr) option"

record s3_output =
  Metadata :: "(jstr \<rightharpoonup> jstr) option"
  dollar_metadata :: "response_metadata option"

text \<open>
  What lies outside the route: the object store behind \<open>s3.send\<close>, which answers a command
  knowing the client's configuration and the commands sent before it, the clock behind
  \<open>Date.now()\<close> and the text \<open>Math.random().toString(16)\<close>, each indexed by the call.
\<close>

record world =
  s3_send :: "s3_config \<Rightarrow> command list \<Rightarrow> command \<Rightarrow> exn + s3_output"
  date_now :: "nat \<Rightarrow> nat"
  math_random16 :: "nat \<Rightarrow> jstr"

record response =
  status :: nat
  headers :: "(jstr \<times> jstr) list"
  body :: json

definition json_response :: "nat \<Rightarrow> json \<Rightarrow> response" where
  "json_response st b =
     \<lparr>status = st, headers = [(str ''Content-Type'', str ''application/json'')], body = b\<rparr>"

section \<open>Asynchronous steps: a result or a thrown error, and the commands sent so far\<close>

type_synonym 'a io = "command list \<Rightarrow> (exn + 'a) \<times> command list"

definition ret :: "'a \<Rightarrow> 'a io" where
  "ret x = (\<lambda>log. (Inr x, log))"

definition throw :: "exn \<Rightarrow> 'a io" where
  "throw e = (\<lambda>log. (Inl e, log))"

definition lift :: "exn + 'a \<Rightarrow> 'a io" where
  "lift r = (\<lambda>log. (r, log))"

definition bind :: "'a io \<Rightarrow> ('a \<Rightarrow> 'b io) \<Rightarrow> 'b io" where
  "bind m k = (\<lambda>log. case m log of (Inl e, log') \<Rightarrow> (Inl e, log') | (Inr x, log') \<Rightarrow> k x log')"

definition send :: "world \<Rightarrow> s3_config \<Rightarrow> command \<Rightarrow> s3_output io" where
  "send w s3 cmd = (\<lambda>log. (s3_send w s3 log cmd, log @ [cmd]))"

section \<open>The upload route\<close>

text \<open>
  \<open>mustEnv\<close>: \<open>!v\<close> holds for a variable that is not set and for one set to the empty string;
  otherwise the value is trimmed and the double quotes around it are removed.
\<close>

definition mustEnv :: "env \<Rightarrow> jstr \<Rightarrow> exn + jstr" where
  "mustEnv env key =
     (case env key of
        None \<Rightarrow> Inl (Error (str ''Missing '' @ key @ str '' in .env.local''))
      | Some v \<Rightarrow>
          if v = [] then Inl (Error (str ''Missing '' @ key @ str '' in .env.local''))
          else Inr (strip_quotes (trim v)))"

text \<open>
  \<open>randomKey\<close>: the prefix, the time in milliseconds, the hexadecimal digits of a random
  number after \<open>0.\<close> (\<open>slice(2)\<close>) and the file name with its white space replaced. \<open>call\<close>
  counts the calls of \<open>randomKey\<close> within one request.
\<close>

definition randomKey :: "world \<Rightarrow> nat \<Rightarrow> jstr \<Rightarrow> jstr \<Rightarrow> jstr" where
  "randomKey w call pfx filename =
     (let safe = replace_spaces filename in
      pfx @ str ''/'' @ dec (date_now w call) @ str ''-'' @ drop 2 (math_random16 w call)
        @ str ''-'' @ safe)"

text \<open>
  \<open>getCidByHead\<close>: one \<open>HeadObjectCommand\<close>, and the first truthy value among the members \<open>cid\<close>
  and \<open>CID\<close> of \<open>Metadata\<close> and the two spellings of the header in \<open>$metadata.httpHeaders\<close>; a
  part that is missing on the way (\<open>?.\<close>) yields \<open>undefined\<close>.
\<close>

definition cid_of_head :: "s3_output \<Rightarrow> jstr option" where
  "cid_of_head head =
     (let md = (case Metadata head of None \<Rightarrow> Map.empty | Some m \<Rightarrow> m);
          hh = (case dollar_metadata head of None \<Rightarrow> Map.empty
                | Some m \<Rightarrow> (case httpHeaders m of None \<Rightarrow> Map.empty | Some h \<Rightarrow> h))
      in jor (jor (jor (md (str ''cid'')) (md (str ''CID'')))
                  (hh (str ''x-amz-meta-cid''))) (hh (str ''X-Amz-Meta-Cid'')))"

definition getCidByHead :: "world \<Rightarrow> s3_config \<Rightarrow> jstr \<Rightarrow> jstr \<Rightarrow> jstr option io" where
  "getCidByHead w s3 bucket key =
     bind (send w s3 (HeadObjectCommand bucket key)) (\<lambda>head.
     let cid = cid_of_head head in ret cid)"

text \<open>The client made by \<open>new S3Client\<close>, the metadata object literal and the body of the final response.\<close>

definition new_S3Client :: "jstr \<Rightarrow> jstr \<Rightarrow> jstr \<Rightarrow> s3_config" where
  "new_S3Client ep ak sk =
     \<lparr>endpoint = ep, region = str ''us-east-1'', accessKeyId = ak,
      secretAccessKey = sk, forcePathStyle = True\<rparr>"

definition metadata_object :: "entry \<Rightarrow> entry \<Rightarrow> jstr \<Rightarrow> jstr \<Rightarrow> json" where
  "metadata_object name description imageIpfs ftype =
     JObj
       [(str ''name'', json_of_entry name),
        (str ''description'', json_of_entry description),
        (str ''image'', JStr imageIpfs),
        (str ''properties'', JObj
           [(str ''files'', JArr [JObj [(str ''uri'', JStr imageIpfs),
                                        (str ''type'', JStr ftype)]]),
            (str ''category'', JStr (str ''image''))])]"

definition upload_result :: "jstr \<Rightarrow> jstr \<Rightarrow> jstr \<Rightarrow> jstr \<Rightarrow> json" where
  "upload_result metadataUrl metadataGatewayUrl imageIpfs imageGatewayUrl =
     JObj
       [(str ''metadataUrl'', JStr metadataUrl),
        (str ''metadataGatewayUrl'', JStr metadataGatewayUrl),
        (str ''imageIpfs'', JStr imageIpfs),
        (str ''imageGatewayUrl'', JStr imageGatewayUrl)]"

definition error_body :: "jstr \<Rightarrow> json" where
  "error_body msg = JObj [(str ''error'', JStr msg)]"

text \<open>The two responses for a content identifier that could not be resolved.\<close>

definition cid_missing_response :: response where
  "cid_missing_response =
     json_response 500 (JObj
       [(str ''error'', JStr (str ''CID missing from upload response (even after HeadObject). ''
           @ [2472, 2495, 2486, 2509, 2458, 2495, 2468] @ str '' '' @ [2489, 2472]
           @ str '' Filebase bucket backend = IPFS '' @ [2447, 2476, 2434]
           @ str '' endpoint = https://s3.filebase.com'')),
        (str ''hint'', JStr (str ''Filebase dashboard '' @ [8594] @ str '' Buckets '' @ [8594]
           @ str '' select bucket '' @ [8594]
           @ str '' backend/network must be IPFS. If not, create a new IPFS bucket.''))])"

definition metadata_cid_missing_response :: response where
  "metadata_cid_missing_response =
     json_response 500 (error_body
       (str ''Metadata CID missing (even after HeadObject). Bucket IPFS-backed ''
           @ [2472, 2494] @ str '' '' @ [2489, 2482, 2503] @ str '' CID ''
           @ [2474, 2494, 2451, 2527, 2494] @ str '' '' @ [2479, 2494, 2476, 2503] @ str '' ''
           @ [2472, 2494, 2404]))"

text \<open>
  The body of the \<open>try\<close> block of \<open>POST\<close>. \<open>Inr\<close> is a returned response and \<open>Inl\<close> a thrown
  error; the second component lists the commands sent to the store, in order.
  \<open>!v\<close> on a value that is a string, \<open>null\<close> or \<open>undefined\<close> holds for \<open>None\<close> and for the empty
  string. \<open>form.get("file")\<close> may be a string, which has no \<open>type\<close>: \<open>startsWith\<close> is then
  called on \<open>undefined\<close> and a \<open>TypeError\<close> is thrown.
\<close>

definition POST_try :: "world \<Rightarrow> env \<Rightarrow> request \<Rightarrow> response io" where
  "POST_try w env req =
     bind (lift (mustEnv env (str ''FILEBASE_ACCESS_KEY''))) (\<lambda>accessKeyId.
     bind (lift (mustEnv env (str ''FILEBASE_SECRET_KEY''))) (\<lambda>secretAccessKey.
     bind (lift (mustEnv env (str ''FILEBASE_BUCKET''))) (\<lambda>bucket.
     bind (lift (mustEnv env (str ''FILEBASE_S3_ENDPOINT''))) (\<lambda>endpoint.
     bind (lift (mustEnv env (str ''FILEBASE_GATEWAY''))) (\<lambda>gateway.
     bind (lift (formData req)) (\<lambda>form.
     let file = form_get form (str ''file'');
         name = entry_or (form_get form (str ''name'')) (str ''My NFT'');
         description = entry_or (form_get form (str ''description'')) []
     in
     case file of
       None \<Rightarrow> ret (json_response 400 (error_body (str ''File missing'')))
     | Some (Text s) \<Rightarrow>
         if s = [] then
           ret (json_response 400 (error_body (str ''File missing'')))
         else
           throw (TypeError (str ''Cannot read properties of undefined (reading '' @ [39]
                               @ str ''startsWith'' @ [39] @ str '')''))
     | Some (Blob file) \<Rightarrow>
     if \<not> prefix (str ''image/'') (file_type file) then
       ret (json_response 400 (error_body (str ''Only image files are allowed'')))
     else
     let s3 = new_S3Client endpoint accessKeyId secretAccessKey;
         imgKey = randomKey w 0 (str ''images'') (file_name file);
         imgBytes = file_bytes file
     in
     bind (send w s3 (PutObjectCommand bucket imgKey (Bytes imgBytes) (file_type file))) (\<lambda>putImg.
     let imgHeaders = (case dollar_metadata putImg of None \<Rightarrow> Map.empty
                       | Some m \<Rightarrow> (case httpHeaders m of None \<Rightarrow> Map.empty | Some h \<Rightarrow> h));
         imgCid = jor (imgHeaders (str ''x-amz-meta-cid'')) (imgHeaders (str ''X-Amz-Meta-Cid''))
     in
     bind (if \<not> truthy imgCid then getCidByHead w s3 bucket imgKey else ret imgCid) (\<lambda>imgCid.
     case imgCid of None \<Rightarrow> ret cid_missing_response | Some imgCid \<Rightarrow>
     if imgCid = [] then ret cid_missing_response
     else
     let imageIpfs = str ''ipfs://'' @ imgCid;
         imageGatewayUrl = gateway @ str ''/'' @ imgCid;
         metadata = metadata_object name description imageIpfs (file_type file);
         metaKey = randomKey w 1 (str ''metadata'') (str ''metadata.json'');
         metaBody = Utf8Json metadata
     in
     bind (send w s3 (PutObjectCommand bucket metaKey metaBody (str ''application/json''))) (\<lambda>putMeta.
     let metaHeaders = (case dollar_metadata putMeta of None \<Rightarrow> Map.empty
                        | Some m \<Rightarrow> (case httpHeaders m of None \<Rightarrow> Map.empty | Some h \<Rightarrow> h));
         metaCid = jor (metaHeaders (str ''x-amz-meta-cid'')) (metaHeaders (str ''X-Amz-Meta-Cid''))
     in
     bind (if \<not> truthy metaCid then getCidByHead w s3 bucket metaKey else ret metaCid) (\<lambda>metaCid.
     case metaCid of None \<Rightarrow> ret metadata_cid_missing_response | Some metaCid \<Rightarrow>
     if metaCid = [] then ret metadata_cid_missing_response
     else
     let metadataUrl = str ''ipfs://'' @ metaCid;
         metadataGatewayUrl = gateway @ str ''/'' @ metaCid
     in
     ret (json_response 200
            (upload_result metadataUrl metadataGatewayUrl imageIpfs imageGatewayUrl))))))))))))"

text \<open>
  \<open>POST\<close>: the \<open>catch\<close> clause turns a thrown error into a response with status 500 whose
  \<open>error\<close> is \<open>e?.message || "Upload failed"\<close>. A request starts with no command sent.
\<close>

definition POST :: "world \<Rightarrow> env \<Rightarrow> request \<Rightarrow> response \<times> command list" where
  "POST w env req =
     (case POST_try w env req [] of
        (Inr res, log) \<Rightarrow> (res, log)
      | (Inl e, log) \<Rightarrow>
          (json_response 500 (error_body (or_default (message e) (str ''Upload failed''))), log))"

text \<open>
  The module itself: its top level holds the imports, the constant \<open>runtime\<close> and the function
  declarations. Loading it reads no environment variable.
\<close>

record module_exports =
  runtime :: jstr

definition module_load :: "env \<Rightarrow> exn + module_exports" where
  "module_load env = Inr \<lparr>runtime = str ''nodejs''\<rparr>"

text \<open>The keys that \<open>POST\<close> passes to \<open>mustEnv\<close>, in the order of the calls.\<close>

definition required_keys :: "jstr list" where
  "required_keys =
     [str ''FILEBASE_ACCESS_KEY'', str ''FILEBASE_SECRET_KEY'', str ''FILEBASE_BUCKET'',
      str ''FILEBASE_S3_ENDPOINT'', str ''FILEBASE_GATEWAY'']"

section \<open>Notions used to state the properties of the route\<close>

text \<open>All five configuration values are present, and \<open>mustEnv\<close> yields these.\<close>

definition configured :: "env \<Rightarrow> jstr \<Rightarrow> jstr \<Rightarrow> jstr \<Rightarrow> jstr \<Rightarrow> jstr \<Rightarrow> bool" where
  "configured env ak sk bucket ep gw =
     (mustEnv env (str ''FILEBASE_ACCESS_KEY'') = Inr ak \<and>
      mustEnv env (str ''FILEBASE_SECRET_KEY'') = Inr sk \<and>
      mustEnv env (str ''FILEBASE_BUCKET'') = Inr bucket \<and>
      mustEnv env (str ''FILEBASE_S3_ENDPOINT'') = Inr ep \<and>
      mustEnv env (str ''FILEBASE_GATEWAY'') = Inr gw)"

text \<open>The JSON documents written to the store by the commands of a log, in order.\<close>

fun written_json :: "command \<Rightarrow> json list" where
  "written_json (PutObjectCommand b k (Utf8Json d) ct) = [d]"
| "written_json _ = []"

definition documents :: "command list \<Rightarrow> json list" where
  "documents log = concat (map written_json log)"

text \<open>
  A response as the route documents it: JSON, with status 200 and the upload result, or with
  status 400 or 500 and an \<open>error\<close> member that is a string.
\<close>

definition answers_json :: "response \<Rightarrow> bool" where
  "answers_json res =
     (headers res = [(str ''Content-Type'', str ''application/json'')] \<and>
      (status res = 200 \<and> (\<exists>a b c d. body res = upload_result a b c d) \<or>
       (status res = 400 \<or> status res = 500) \<and>
       (\<exists>msg. field (body res) (str ''error'') = Some (JStr msg))))"

text \<open>The files among the entries of the form of a request.\<close>

fun entry_files :: "entry \<Rightarrow> File list" where
  "entry_files (Blob f) = [f]"
| "entry_files (Text s) = []"

definition binary_payloads :: "request \<Rightarrow> File list" where
  "binary_payloads req =
     (case formData req of Inl e \<Rightarrow> [] | Inr form \<Rightarrow> concat (map (entry_files \<circ> snd) form))"

fun is_put :: "command \<Rightarrow> bool" where
  "is_put (PutObjectCommand b k d ct) = True"
| "is_put (HeadObjectCommand b k) = False"

text \<open>
  The two-tier strategy in the words of the specification, written without the functions of
  the route. Each tier is an ordered list of candidate lookups that yields the first
  identifier present (not empty), or none. The first tier reads the content-identifier
  header of the write response under its two spellings. The second tier, used only if the
  first yields nothing, sends one metadata-only query for the same bucket and key and reads
  the identifier from the metadata of its answer: the members \<open>cid\<close> and \<open>CID\<close> of the object
  metadata, then the two spellings of the header.
\<close>

fun first_truthy :: "jstr option list \<Rightarrow> jstr option" where
  "first_truthy [] = None"
| "first_truthy (v # vs) = (if truthy v then v else first_truthy vs)"

definition header_cid :: "s3_output \<Rightarrow> jstr option" where
  "header_cid put_out =
     (case dollar_metadata put_out of
        None \<Rightarrow> None
      | Some m \<Rightarrow>
          (case httpHeaders m of
             None \<Rightarrow> None
           | Some h \<Rightarrow> first_truthy [h (str ''x-amz-meta-cid''), h (str ''X-Amz-Meta-Cid'')]))"

definition metadata_cid :: "s3_output \<Rightarrow> jstr option" where
  "metadata_cid head_out =
     (let object_metadata = (\<lambda>k. case Metadata head_out of None \<Rightarrow> None | Some m \<Rightarrow> m k);
          header = (\<lambda>k. case dollar_metadata head_out of
                           None \<Rightarrow> None
                         | Some m \<Rightarrow> (case httpHeaders m of None \<Rightarrow> None | Some h \<Rightarrow> h k))
      in first_truthy
           [object_metadata (str ''cid''), object_metadata (str ''CID''),
            header (str ''x-amz-meta-cid''), header (str ''X-Amz-Meta-Cid'')])"

definition head_query :: "world \<Rightarrow> s3_config \<Rightarrow> jstr \<Rightarrow> jstr \<Rightarrow> jstr option io" where
  "head_query w s3 bucket key =
     bind (send w s3 (HeadObjectCommand bucket key)) (\<lambda>head_out. ret (metadata_cid head_out))"

definition two_tier :: "world \<Rightarrow> s3_config \<Rightarrow> jstr \<Rightarrow> jstr \<Rightarrow> s3_output \<Rightarrow> jstr option io" where
  "two_tier w s3 bucket key put_out =
     (case header_cid put_out of
        Some cid \<Rightarrow> ret (Some cid)
      | None \<Rightarrow> head_query w s3 bucket key)"

text \<open>
  The processing steps of the specification for a validated upload: write the image, resolve
  its identifier, build the metadata document, write it, resolve its identifier by the same
  strategy, return the result.
\<close>

definition processing ::
  "world \<Rightarrow> s3_config \<Rightarrow> jstr \<Rightarrow> jstr \<Rightarrow> entry \<Rightarrow> entry \<Rightarrow> File \<Rightarrow> response io" where
  "processing w s3 bucket gw nm ds f =
     (let imgKey = randomKey w 0 (str ''images'') (file_name f);
          metaKey = randomKey w 1 (str ''metadata'') (str ''metadata.json'')
      in
      bind (send w s3 (PutObjectCommand bucket imgKey (Bytes (file_bytes f)) (file_type f)))
        (\<lambda>putImg.
      bind (two_tier w s3 bucket imgKey putImg) (\<lambda>imgCid.
      case imgCid of None \<Rightarrow> ret cid_missing_response | Some imgCid \<Rightarrow>
      if imgCid = [] then ret cid_missing_response
      else
      bind (send w s3 (PutObjectCommand bucket metaKey
              (Utf8Json (metadata_object nm ds (str ''ipfs://'' @ imgCid) (file_type f)))
              (str ''application/json''))) (\<lambda>putMeta.
      bind (two_tier w s3 bucket metaKey putMeta) (\<lambda>metaCid.
      case metaCid of None \<Rightarrow> ret metadata_cid_missing_response | Some metaCid \<Rightarrow>
      if metaCid = [] then ret metadata_cid_missing_response
      else
      ret (json_response 200
             (upload_result (str ''ipfs://'' @ metaCid) (gw @ str ''/'' @ metaCid)
                (str ''ipfs://'' @ imgCid) (gw @ str ''/'' @ imgCid))))))))"

text \<open>What a step may return, with the log it leaves, when it returns and does not throw.\<close>

definition ok :: "'a io \<Rightarrow> command list \<Rightarrow> ('a \<Rightarrow> command list \<Rightarrow> bool) \<Rightarrow> bool" where
  "ok m log P = (\<forall>x l. m log = (Inr x, l) \<longrightarrow> P x l)"

section \<open>The page: the client workflow\<close>

text \<open>
  The values of the page: those held by \<open>useState\<close> and what the wallet hook reports.
\<close>

record page =
  name :: jstr
  description :: jstr
  selected_file :: "File option"
  status_text :: jstr
  busy :: bool
  mintAddress :: "jstr option"
  metadataUrl :: "jstr option"
  metadataGatewayUrl :: "jstr option"
  imageGatewayUrl :: "jstr option"
  wallet_connected :: bool
  wallet_publicKey :: "jstr option"

definition initial_page :: page where
  "initial_page =
     \<lparr>name = str ''My NFT'', description = str ''Demo NFT on Devnet'', selected_file = None,
      status_text = [], busy = False, mintAddress = None, metadataUrl = None,
      metadataGatewayUrl = None, imageGatewayUrl = None, wallet_connected = False,
      wallet_publicKey = None\<rparr>"

text \<open>
  The component. A setter writes the \<open>current\<close> values. The button and the handlers belong to
  the last render: the \<open>disabled\<close> attribute and the values that \<open>mintNft\<close> and
  \<open>uploadToStorage\<close> close over (\<open>wallet\<close>, \<open>metaplex\<close>, \<open>file\<close>, \<open>name\<close>, \<open>description\<close>) are the
  \<open>rendered\<close> ones, and they become the current ones only when React renders again. The calls
  of \<open>mintNft\<close> that are suspended at an \<open>await\<close> are \<open>inflight\<close>: a suspended call keeps the
  \<open>name\<close> it was started with and is either waiting for the upload (\<open>fetch\<close> and
  \<open>res.text()\<close>) or for \<open>metaplex.nfts().create\<close>.
\<close>

datatype phase = Uploading | Minting jstr

record workflow =
  wf_name :: jstr
  wf_phase :: phase

record component =
  current :: page
  rendered :: page
  inflight :: "workflow list"

definition initial_component :: component where
  "initial_component = \<lparr>current = initial_page, rendered = initial_page, inflight = []\<rparr>"

text \<open>
  The answer to the upload request as the page reads it: the HTTP status, the text of the
  body and, when the text is JSON, the members the page looks at (\<open>None\<close> when \<open>JSON.parse\<close>
  throws).
\<close>

record UploadResponse =
  data_error :: "jstr option"
  data_metadataUrl :: "jstr option"
  data_metadataGatewayUrl :: "jstr option"
  data_imageGatewayUrl :: "jstr option"

record fetch_result =
  res_status :: nat
  res_text :: jstr
  res_json :: "UploadResponse option"

definition res_ok :: "fetch_result \<Rightarrow> bool" where
  "res_ok res = (200 \<le> res_status res \<and> res_status res \<le> 299)"

text \<open>What the page asks of the outside: the upload request and the mint.\<close>

datatype effect =
    Fetch_upload File jstr jstr
  | Create_nft jstr jstr nat

text \<open>
  The events: a click on the button, a render of the component, the settling of the upload
  or of the mint of the suspended call at an index, and the inputs and the wallet changing.
\<close>

datatype event =
    Click
  | Render
  | Upload_settled nat "exn + fetch_result"
  | Mint_settled nat "exn + jstr"
  | Set_name jstr
  | Set_description jstr
  | Set_file "File option"
  | Wallet bool "jstr option"

text \<open>\<open>e?.message || String(e)\<close>: for an error object with an empty message, \<open>String(e)\<close> is its name.\<close>

definition error_text :: "exn \<Rightarrow> jstr" where
  "error_text e = or_default (message e) (error_name e)"

text \<open>The handler given to \<open>catch\<close> on the button: \<open>setBusy(false)\<close> and \<open>setStatus\<close>.\<close>

definition on_rejected :: "exn \<Rightarrow> component \<Rightarrow> component" where
  "on_rejected e c =
     c\<lparr>current := (current c)\<lparr>busy := False,
                                status_text := [10060] @ str '' '' @ error_text e\<rparr>\<rparr>"

definition drop_at :: "nat \<Rightarrow> 'a list \<Rightarrow> 'a list" where
  "drop_at i xs = take i xs @ drop (Suc i) xs"

text \<open>
  A suspended call that throws: \<open>finally\<close> clears \<open>busy\<close>, the call is over and the rejection
  reaches the \<open>catch\<close> handler.
\<close>

definition reject :: "nat \<Rightarrow> exn \<Rightarrow> component \<Rightarrow> component \<times> effect list" where
  "reject i e c =
     (on_rejected e (c\<lparr>current := (current c)\<lparr>busy := False\<rparr>,
                       inflight := drop_at i (inflight c)\<rparr>), [])"

text \<open>
  \<open>mintNft\<close> up to its first \<open>await\<close>, with the start of \<open>uploadToStorage\<close>. Its three tests
  read the rendered wallet, \<open>metaplex\<close> (which \<open>useMemo\<close> makes \<open>null\<close> exactly when the public key
  is) and file; \<open>busy\<close> is not among them.
\<close>

definition mintNft :: "component \<Rightarrow> component \<times> effect list" where
  "mintNft c =
     (let wallet = rendered c; metaplex = wallet_publicKey (rendered c) in
      if \<not> wallet_connected wallet \<or> wallet_publicKey wallet = None then
        (on_rejected (Error (str ''Connect wallet first (Phantom Devnet).'')) c, [])
      else if metaplex = None then
        (on_rejected (Error (str ''Metaplex not ready yet'')) c, [])
      else case selected_file (rendered c) of
        None \<Rightarrow> (on_rejected (Error (str ''Please select an image first'')) c, [])
      | Some file \<Rightarrow>
          (c\<lparr>current := (current c)\<lparr>busy := True, mintAddress := None,
               status_text := str ''Uploading image + metadata to Filebase (IPFS)...''\<rparr>,
             inflight := inflight c @
               [\<lparr>wf_name = name (rendered c), wf_phase = Uploading\<rparr>]\<rparr>,
           [Fetch_upload file (name (rendered c)) (description (rendered c))]))"

text \<open>The rest of \<open>uploadToStorage\<close> once the request has settled, and the start of the mint.\<close>

definition upload_settled ::
  "nat \<Rightarrow> workflow \<Rightarrow> exn + fetch_result \<Rightarrow> component \<Rightarrow> component \<times> effect list" where
  "upload_settled i call r c =
     (case r of
        Inl e \<Rightarrow> reject i e c
      | Inr res \<Rightarrow>
          (case (if res_text res = [] then Some \<lparr>data_error = None, data_metadataUrl = None,
                    data_metadataGatewayUrl = None, data_imageGatewayUrl = None\<rparr>
                 else res_json res) of
             None \<Rightarrow>
               reject i (Error (str ''Upload API returned non-JSON response.'' @ [10]
                 @ str ''Status: '' @ dec (res_status res) @ [10] @ str ''Body: ''
                 @ or_default (Some (take 300 (res_text res))) (str ''(empty)''))) c
           | Some data \<Rightarrow>
               if \<not> res_ok res then
                 reject i (Error (or_default (data_error data)
                   (str ''Upload failed (status '' @ dec (res_status res) @ str '')''))) c
               else
                 (case data_metadataUrl data of
                    None \<Rightarrow>
                      reject i (Error
                        (str ''Upload succeeded but metadataUrl missing from response.'')) c
                  | Some uri \<Rightarrow>
                 if uri = [] then
                   reject i (Error
                     (str ''Upload succeeded but metadataUrl missing from response.'')) c
                 else
                 (c\<lparr>current := (current c)\<lparr>metadataUrl := Some uri,
                      metadataGatewayUrl := jor (data_metadataGatewayUrl data) None,
                      imageGatewayUrl := jor (data_imageGatewayUrl data) None,
                      status_text := str ''Minting NFT on Solana Devnet...''\<rparr>,
                    inflight := (inflight c)[i := call\<lparr>wf_phase := Minting uri\<rparr>]\<rparr>,
                  [Create_nft uri (wf_name call) 0]))))"

text \<open>The rest of \<open>mintNft\<close> once \<open>create\<close> has settled.\<close>

definition mint_settled :: "nat \<Rightarrow> exn + jstr \<Rightarrow> component \<Rightarrow> component \<times> effect list" where
  "mint_settled i r c =
     (case r of
        Inl e \<Rightarrow> reject i e c
      | Inr address \<Rightarrow>
          (c\<lparr>current := (current c)\<lparr>mintAddress := Some address,
               status_text := [9989] @ str '' NFT Minted!'', busy := False\<rparr>,
             inflight := drop_at i (inflight c)\<rparr>, []))"

text \<open>
  One event. The button carries \<open>disabled = !wallet.connected || busy\<close> with the rendered
  values, and a disabled button dispatches no click; an enabled one calls the rendered
  \<open>mintNft\<close>. A render makes the current values the rendered ones. An event that settles a
  call which is not suspended there does not occur and changes nothing.
\<close>

definition button_disabled :: "page \<Rightarrow> bool" where
  "button_disabled s = (\<not> wallet_connected s \<or> busy s)"

fun step :: "component \<Rightarrow> event \<Rightarrow> component \<times> effect list" where
  "step c Click = (if button_disabled (rendered c) then (c, []) else mintNft c)"
| "step c Render = (c\<lparr>rendered := current c\<rparr>, [])"
| "step c (Upload_settled i r) =
     (if i < length (inflight c) \<and> wf_phase (inflight c ! i) = Uploading
      then upload_settled i (inflight c ! i) r c else (c, []))"
| "step c (Mint_settled i r) =
     (if i < length (inflight c) \<and> wf_phase (inflight c ! i) \<noteq> Uploading
      then mint_settled i r c else (c, []))"
| "step c (Set_name v) = (c\<lparr>current := (current c)\<lparr>name := v\<rparr>\<rparr>, [])"
| "step c (Set_description v) = (c\<lparr>current := (current c)\<lparr>description := v\<rparr>\<rparr>, [])"
| "step c (Set_file v) = (c\<lparr>current := (current c)\<lparr>selected_file := v\<rparr>\<rparr>, [])"
| "step c (Wallet k pk) =
     (c\<lparr>current := (current c)\<lparr>wallet_connected := k, wallet_publicKey := pk\<rparr>\<rparr>, [])"

text \<open>The states the page can be in: after any sequence of events from the initial state.\<close>

fun run :: "component \<Rightarrow> event list \<Rightarrow> component" where
  "run c [] = c"
| "run c (e # es) = run (fst (step c e)) es"

fun effects :: "component \<Rightarrow> event list \<Rightarrow> effect list" where
  "effects c [] = []"
| "effects c (e # es) = snd (step c e) @ effects (fst (step c e)) es"

text \<open>
  A sequence of events in which every click is handled by a button that shows the current
  \<open>busy\<close>: React has rendered since \<open>busy\<close> last changed.
\<close>

fun clicks_after_commit :: "component \<Rightarrow> event list \<Rightarrow> bool" where
  "clicks_after_commit c [] = True"
| "clicks_after_commit c (e # es) =
     ((e = Click \<longrightarrow> busy (rendered c) = busy (current c)) \<and>
      clicks_after_commit (fst (step c e)) es)"

text \<open>The invariant of the page: \<open>busy\<close> is set exactly while one call is suspended.\<close>

definition single_flight :: "component \<Rightarrow> bool" where
  "single_flight c = (if busy (current c) then length (inflight c) = 1 else inflight c = [])"

section \<open>Concrete inputs\<close>

definition example_env :: env where
  "example_env = map_of
     [(str ''FILEBASE_ACCESS_KEY'', str ''AK''),
      (str ''FILEBASE_SECRET_KEY'', str ''SK''),
      (str ''FILEBASE_BUCKET'', str ''nft''),
      (str ''FILEBASE_S3_ENDPOINT'', str ''https://s3.filebase.com''),
      (str ''FILEBASE_GATEWAY'', str ''https://ipfs.filebase.io/ipfs'')]"

definition partial_env :: env where
  "partial_env = map_of
     [(str ''FILEBASE_ACCESS_KEY'', str ''AK''),
      (str ''FILEBASE_SECRET_KEY'', str ''SK'')]"

definition example_file :: File where
  "example_file = \<lparr>file_name = str ''gun skin.png'', file_type = str ''image/png'',
     file_bytes = [137, 80, 78, 71]\<rparr>"

definition text_file :: File where
  "text_file = \<lparr>file_name = str ''notes.txt'', file_type = str ''text/plain'',
     file_bytes = [104, 105]\<rparr>"

definition example_request :: request where
  "example_request = \<lparr>formData = Inr
     [(str ''file'', Blob example_file),
      (str ''name'', Text (str ''Gun Skin #1'')),
      (str ''description'', Text (str ''test''))]\<rparr>"

definition unnamed_request :: request where
  "unnamed_request = \<lparr>formData = Inr
     [(str ''file'', Blob example_file), (str ''name'', Text [])]\<rparr>"

definition empty_request :: request where
  "empty_request = \<lparr>formData = Inr []\<rparr>"

definition string_file_request :: request where
  "string_file_request = \<lparr>formData = Inr [(str ''file'', Text (str ''hello''))]\<rparr>"

definition unparsable_request :: request where
  "unparsable_request = \<lparr>formData = Inl (TypeError (str ''Failed to parse body as FormData.''))\<rparr>"

definition text_file_request :: request where
  "text_file_request = \<lparr>formData = Inr [(str ''file'', Blob text_file)]\<rparr>"

text \<open>A store that reports the identifier in the metadata of the \<open>HEAD\<close> answer only.\<close>

definition example_world :: world where
  "example_world =
     \<lparr>s3_send = (\<lambda>cfg log cmd.
        case cmd of
          PutObjectCommand b k d ct \<Rightarrow>
            Inr \<lparr>Metadata = None, dollar_metadata = Some \<lparr>httpHeaders = None\<rparr>\<rparr>
        | HeadObjectCommand b k \<Rightarrow>
            Inr \<lparr>Metadata = Some (map_of [(str ''cid'',
                     if prefix (str ''images/'') k then str ''QmImage'' else str ''QmMeta'')]),
                 dollar_metadata = None\<rparr>),
      date_now = (\<lambda>call. 1723),
      math_random16 = (\<lambda>call. str ''0.8f3a'')\<rparr>"

text \<open>A store that is not backed by IPFS and reports no identifier, and one that is unreachable.\<close>

definition silent_world :: world where
  "silent_world =
     \<lparr>s3_send = (\<lambda>cfg log cmd. Inr \<lparr>Metadata = None, dollar_metadata = None\<rparr>),
      date_now = (\<lambda>call. 1723),
      math_random16 = (\<lambda>call. str ''0.8f3a'')\<rparr>"

definition failing_world :: world where
  "failing_world =
     \<lparr>s3_send = (\<lambda>cfg log cmd. Inl (Error (str ''getaddrinfo ENOTFOUND s3.filebase.com''))),
      date_now = (\<lambda>call. 1723),
      math_random16 = (\<lambda>call. str ''0.8f3a'')\<rparr>"

section \<open>Laws of the asynchronous steps\<close>

lemma bind_lift_Inr [simp]: "bind (lift (Inr x)) k = k x"
  by (simp add: bind_def lift_def)

lemma bind_lift_Inl [simp]: "bind (lift (Inl e)) k = throw e"
  by (simp add: bind_def lift_def throw_def)

lemma bind_ret [simp]: "bind (ret x) k = k x"
  by (simp add: bind_def ret_def)

lemma bind_throw [simp]: "bind (throw e) k = throw e"
  by (simp add: bind_def throw_def)

lemma ok_bind: "ok (bind m k) log P = ok m log (\<lambda>x l. ok (k x) l P)"
  by (auto simp: ok_def bind_def split: prod.splits sum.splits)

lemma ok_ret: "ok (ret x) log P = P x log"
  by (simp add: ok_def ret_def)

lemma ok_throw: "ok (throw e) log P = True"
  by (simp add: ok_def throw_def)

lemma ok_send:
  "ok (send w s3 c) log P = (\<forall>out. s3_send w s3 log c = Inr out \<longrightarrow> P out (log @ [c]))"
  by (auto simp: ok_def send_def)

lemma ok_case_option:
  "ok (case v of None \<Rightarrow> m | Some x \<Rightarrow> n x) log P =
     (case v of None \<Rightarrow> ok m log P | Some x \<Rightarrow> ok (n x) log P)"
  by (simp split: option.splits)

lemma ok_if: "ok (if b then m else n) log P = (if b then ok m log P else ok n log P)"
  by simp

lemma ok_getCidByHead:
  "ok (getCidByHead w s3 bucket key) log P =
     (\<forall>h. s3_send w s3 log (HeadObjectCommand bucket key) = Inr h \<longrightarrow>
        P (cid_of_head h) (log @ [HeadObjectCommand bucket key]))"
  by (simp add: getCidByHead_def ok_bind ok_send ok_ret)

lemma ok_two_tier:
  "ok (two_tier w s3 bucket key out) log P =
     (case header_cid out of
        Some c \<Rightarrow> P (Some c) log
      | None \<Rightarrow>
          (\<forall>h. s3_send w s3 log (HeadObjectCommand bucket key) = Inr h \<longrightarrow>
             P (metadata_cid h) (log @ [HeadObjectCommand bucket key])))"
  by (simp add: two_tier_def head_query_def ok_bind ok_send ok_ret split: option.splits)

lemmas ok_simps = ok_bind ok_ret ok_throw ok_send ok_if ok_case_option
  ok_getCidByHead ok_two_tier

lemma okD: "m log = (Inr x, l) \<Longrightarrow> ok m log P \<Longrightarrow> P x l"
  by (simp add: ok_def)

lemma documents_Nil [simp]: "documents [] = []"
  by (simp add: documents_def)

lemma documents_Cons [simp]: "documents (c # cs) = written_json c @ documents cs"
  by (simp add: documents_def)

lemma documents_append [simp]: "documents (xs @ ys) = documents xs @ documents ys"
  by (simp add: documents_def)

section \<open>The two-tier lookup\<close>

lemma two_tier_eq:
  "two_tier w s3 bucket key out log =
     (case header_cid out of
        Some c \<Rightarrow> (Inr (Some c), log)
      | None \<Rightarrow>
          (map_sum id metadata_cid (s3_send w s3 log (HeadObjectCommand bucket key)),
           log @ [HeadObjectCommand bucket key]))"
  by (simp add: two_tier_def head_query_def bind_def send_def ret_def
      split: option.splits sum.splits)

lemma metadata_cid_eq:
  "metadata_cid h = (if truthy (cid_of_head h) then cid_of_head h else None)"
  by (auto simp: metadata_cid_def cid_of_head_def Let_def jor_def truthy_def
      split: option.splits)

lemma metadata_cid_nonempty: "metadata_cid h = Some c \<Longrightarrow> c \<noteq> []"
  by (auto simp: metadata_cid_eq truthy_def split: if_splits)

lemma header_cid_nonempty: "header_cid out = Some c \<Longrightarrow> c \<noteq> []"
  by (auto simp: header_cid_def truthy_def split: option.splits if_splits)

lemma getCidByHead_falsy:
  "bind (getCidByHead w s3 bucket key) (case_option X (\<lambda>c. if c = [] then X else Y c))
   = bind (head_query w s3 bucket key) (case_option X (\<lambda>c. if c = [] then X else Y c))"
proof
  fix log
  show "bind (getCidByHead w s3 bucket key) (case_option X (\<lambda>c. if c = [] then X else Y c)) log
   = bind (head_query w s3 bucket key) (case_option X (\<lambda>c. if c = [] then X else Y c)) log"
    by (auto simp: getCidByHead_def head_query_def bind_def send_def ret_def metadata_cid_eq
        truthy_def split: sum.splits option.splits)
qed

lemma two_tier_inline:
  "bind (if \<not> truthy (jor
        ((case dollar_metadata out of None \<Rightarrow> Map.empty
          | Some m \<Rightarrow> (case httpHeaders m of None \<Rightarrow> Map.empty | Some h \<Rightarrow> h)) (str ''x-amz-meta-cid''))
        ((case dollar_metadata out of None \<Rightarrow> Map.empty
          | Some m \<Rightarrow> (case httpHeaders m of None \<Rightarrow> Map.empty | Some h \<Rightarrow> h)) (str ''X-Amz-Meta-Cid'')))
    then getCidByHead w s3 bucket key
    else ret (jor
        ((case dollar_metadata out of None \<Rightarrow> Map.empty
          | Some m \<Rightarrow> (case httpHeaders m of None \<Rightarrow> Map.empty | Some h \<Rightarrow> h)) (str ''x-amz-meta-cid''))
        ((case dollar_metadata out of None \<Rightarrow> Map.empty
          | Some m \<Rightarrow> (case httpHeaders m of None \<Rightarrow> Map.empty | Some h \<Rightarrow> h)) (str ''X-Amz-Meta-Cid''))))
     (case_option X (\<lambda>c. if c = [] then X else Y c))
   = bind (two_tier w s3 bucket key out) (case_option X (\<lambda>c. if c = [] then X else Y c))"
  by (auto simp: two_tier_def header_cid_def jor_def truthy_def getCidByHead_falsy
      split: option.splits)

section \<open>The outcomes of the route\<close>

lemma POST_try_configured:
  assumes "configured env ak sk bucket ep gw"
  shows "POST_try w env req =
     (case formData req of
        Inl e \<Rightarrow> throw e
      | Inr form \<Rightarrow>
          (case form_get form (str ''file'') of
             None \<Rightarrow> ret (json_response 400 (error_body (str ''File missing'')))
           | Some (Text s) \<Rightarrow>
               if s = [] then ret (json_response 400 (error_body (str ''File missing'')))
               else throw (TypeError (str ''Cannot read properties of undefined (reading ''
                      @ [39] @ str ''startsWith'' @ [39] @ str '')''))
           | Some (Blob f) \<Rightarrow>
               if \<not> prefix (str ''image/'') (file_type f)
               then ret (json_response 400 (error_body (str ''Only image files are allowed'')))
               else processing w (new_S3Client ep ak sk) bucket gw
                      (entry_or (form_get form (str ''name'')) (str ''My NFT''))
                      (entry_or (form_get form (str ''description'')) []) f))"
  using assms
  unfolding POST_try_def processing_def Let_def configured_def
  by (simp add: two_tier_inline split: sum.splits option.splits entry.splits
      cong: if_cong option.case_cong)


lemma mustEnv_Inl:
  "\<not> truthy (env key) \<Longrightarrow>
     mustEnv env key = Inl (Error (str ''Missing '' @ key @ str '' in .env.local''))"
  by (auto simp: mustEnv_def truthy_def split: option.splits)

lemma mustEnv_Inr: "truthy (env key) \<Longrightarrow> \<exists>v. mustEnv env key = Inr v"
  by (auto simp: mustEnv_def truthy_def split: option.splits)

lemma POST_try_missing:
  assumes "find (\<lambda>k. \<not> truthy (env k)) required_keys = Some key"
  shows "POST_try w env req = throw (Error (str ''Missing '' @ key @ str '' in .env.local''))"
proof -
  have k: "\<not> truthy (env key)"
    using assms by (auto simp: find_Some_iff)
  consider (a) "\<not> truthy (env (str ''FILEBASE_ACCESS_KEY''))"
      "key = str ''FILEBASE_ACCESS_KEY''"
    | (b) "truthy (env (str ''FILEBASE_ACCESS_KEY''))"
      "\<not> truthy (env (str ''FILEBASE_SECRET_KEY''))" "key = str ''FILEBASE_SECRET_KEY''"
    | (c) "truthy (env (str ''FILEBASE_ACCESS_KEY''))"
      "truthy (env (str ''FILEBASE_SECRET_KEY''))"
      "\<not> truthy (env (str ''FILEBASE_BUCKET''))" "key = str ''FILEBASE_BUCKET''"
    | (d) "truthy (env (str ''FILEBASE_ACCESS_KEY''))"
      "truthy (env (str ''FILEBASE_SECRET_KEY''))"
      "truthy (env (str ''FILEBASE_BUCKET''))"
      "\<not> truthy (env (str ''FILEBASE_S3_ENDPOINT''))" "key = str ''FILEBASE_S3_ENDPOINT''"
    | (e) "truthy (env (str ''FILEBASE_ACCESS_KEY''))"
      "truthy (env (str ''FILEBASE_SECRET_KEY''))"
      "truthy (env (str ''FILEBASE_BUCKET''))"
      "truthy (env (str ''FILEBASE_S3_ENDPOINT''))"
      "\<not> truthy (env (str ''FILEBASE_GATEWAY''))" "key = str ''FILEBASE_GATEWAY''"
    using assms by (auto simp: required_keys_def split: if_splits)
  then show ?thesis
  proof cases
    case a
    then show ?thesis by (simp add: POST_try_def mustEnv_Inl)
  next
    case b
    from mustEnv_Inr[of env "str ''FILEBASE_ACCESS_KEY''"] b(1) obtain v1 where "mustEnv env (str ''FILEBASE_ACCESS_KEY'') = Inr v1" by blast
    with b show ?thesis by (simp add: POST_try_def mustEnv_Inl)
  next
    case c
    from mustEnv_Inr[of env "str ''FILEBASE_ACCESS_KEY''"] c(1) obtain v1 where "mustEnv env (str ''FILEBASE_ACCESS_KEY'') = Inr v1" by blast
    moreover from mustEnv_Inr[of env "str ''FILEBASE_SECRET_KEY''"] c(2) obtain v2 where "mustEnv env (str ''FILEBASE_SECRET_KEY'') = Inr v2" by blast
    ultimately show ?thesis using c by (simp add: POST_try_def mustEnv_Inl)
  next
    case d
    from mustEnv_Inr[of env "str ''FILEBASE_ACCESS_KEY''"] d(1) obtain v1 where "mustEnv env (str ''FILEBASE_ACCESS_KEY'') = Inr v1" by blast
    moreover from mustEnv_Inr[of env "str ''FILEBASE_SECRET_KEY''"] d(2) obtain v2 where "mustEnv env (str ''FILEBASE_SECRET_KEY'') = Inr v2" by blast
    moreover from mustEnv_Inr[of env "str ''FILEBASE_BUCKET''"] d(3) obtain v3 where "mustEnv env (str ''FILEBASE_BUCKET'') = Inr v3" by blast
    ultimately show ?thesis using d by (simp add: POST_try_def mustEnv_Inl)
  next
    case e
    from mustEnv_Inr[of env "str ''FILEBASE_ACCESS_KEY''"] e(1) obtain v1 where "mustEnv env (str ''FILEBASE_ACCESS_KEY'') = Inr v1" by blast
    moreover from mustEnv_Inr[of env "str ''FILEBASE_SECRET_KEY''"] e(2) obtain v2 where "mustEnv env (str ''FILEBASE_SECRET_KEY'') = Inr v2" by blast
    moreover from mustEnv_Inr[of env "str ''FILEBASE_BUCKET''"] e(3) obtain v3 where "mustEnv env (str ''FILEBASE_BUCKET'') = Inr v3" by blast
    moreover from mustEnv_Inr[of env "str ''FILEBASE_S3_ENDPOINT''"] e(4) obtain v4 where "mustEnv env (str ''FILEBASE_S3_ENDPOINT'') = Inr v4" by blast
    ultimately show ?thesis using e by (simp add: POST_try_def mustEnv_Inl)
  qed
qed

lemma env_cases:
  obtains (configured) ak sk bucket ep gw where "configured env ak sk bucket ep gw"
    | (missing) key where "find (\<lambda>k. \<not> truthy (env k)) required_keys = Some key"
proof (cases "find (\<lambda>k. \<not> truthy (env k)) required_keys")
  case None
  then have "\<forall>k \<in> set required_keys. truthy (env k)"
    by (auto simp: find_None_iff)
  then have "truthy (env (str ''FILEBASE_ACCESS_KEY''))"
    "truthy (env (str ''FILEBASE_SECRET_KEY''))"
    "truthy (env (str ''FILEBASE_BUCKET''))"
    "truthy (env (str ''FILEBASE_S3_ENDPOINT''))"
    "truthy (env (str ''FILEBASE_GATEWAY''))"
    by (simp_all add: required_keys_def)
  then obtain ak sk bucket ep gw where "configured env ak sk bucket ep gw"
    unfolding configured_def by (blast dest: mustEnv_Inr)
  then show ?thesis by (rule configured)
next
  case (Some key)
  then show ?thesis by (rule missing)
qed

lemma configured_not_missing:
  "configured env ak sk bucket ep gw \<Longrightarrow> find (\<lambda>k. \<not> truthy (env k)) required_keys = None"
  by (auto simp: configured_def required_keys_def mustEnv_def truthy_def split: option.splits if_splits)


section \<open>Processing a validated upload\<close>

lemma processing_ok_200:
  "ok (processing w s3 bucket gw nm ds f) log0
     (\<lambda>res log. status res = 200 \<longrightarrow>
        (\<exists>imgCid metaCid. imgCid \<noteq> [] \<and> metaCid \<noteq> [] \<and>
           res = json_response 200
             (upload_result (str ''ipfs://'' @ metaCid) (gw @ str ''/'' @ metaCid)
                (str ''ipfs://'' @ imgCid) (gw @ str ''/'' @ imgCid)) \<and>
           documents log = documents log0 @
             [metadata_object nm ds (str ''ipfs://'' @ imgCid) (file_type f)]))"
  unfolding processing_def Let_def
  apply (simp add: ok_simps cid_missing_response_def metadata_cid_missing_response_def
      json_response_def split: option.splits)
  apply blast
  done

lemma processing_ok_returns:
  "ok (processing w s3 bucket gw nm ds f) log0
     (\<lambda>res log. res = cid_missing_response \<or> res = metadata_cid_missing_response \<or>
        (\<exists>a b c d. res = json_response 200 (upload_result a b c d)))"
  unfolding processing_def Let_def
  apply (simp add: ok_simps split: option.splits)
  apply blast
  done

lemma processing_documents:
  assumes "processing w s3 bucket gw nm ds f log0 = (r, log)"
  shows "documents log = documents log0 \<or>
     (\<exists>c. documents log = documents log0 @
        [metadata_object nm ds (str ''ipfs://'' @ c) (file_type f)])"
  using assms
  unfolding processing_def Let_def
  by (auto simp: bind_def send_def two_tier_eq ret_def
      split: prod.splits sum.splits option.splits if_splits)

lemma POST_of_Inr: "POST_try w env req [] = (Inr res, log) \<Longrightarrow> POST w env req = (res, log)"
  by (simp add: POST_def)

lemma POST_of_Inl:
  "POST_try w env req [] = (Inl e, log) \<Longrightarrow>
     POST w env req =
       (json_response 500 (error_body (or_default (message e) (str ''Upload failed''))), log)"
  by (simp add: POST_def)

lemma POST_200_try:
  assumes "POST w env req = (res, log)" and "status res = 200"
  shows "POST_try w env req [] = (Inr res, log)"
  using assms by (auto simp: POST_def json_response_def split: prod.splits sum.splits)

lemma POST_200_processing:
  assumes "POST w env req = (res, log)" and "status res = 200"
  obtains ak sk bucket ep gw form f where
    "configured env ak sk bucket ep gw"
    "formData req = Inr form"
    "form_get form (str ''file'') = Some (Blob f)"
    "prefix (str ''image/'') (file_type f)"
    "processing w (new_S3Client ep ak sk) bucket gw
       (entry_or (form_get form (str ''name'')) (str ''My NFT''))
       (entry_or (form_get form (str ''description'')) []) f [] = (Inr res, log)"
proof -
  have t: "POST_try w env req [] = (Inr res, log)"
    using assms by (rule POST_200_try)
  show thesis
  proof (cases env rule: env_cases)
    case (missing key)
    with t show ?thesis by (simp add: POST_try_missing throw_def)
  next
    case (configured ak sk bucket ep gw)
    note eq = POST_try_configured[OF configured, of w req]
    show ?thesis
    proof (cases "formData req")
      case (Inl e)
      with t eq show ?thesis by (simp add: throw_def)
    next
      case (Inr form)
      show ?thesis
      proof (cases "form_get form (str ''file'')")
        case None
        with t eq Inr assms(2) show ?thesis by (auto simp: ret_def json_response_def)
      next
        case (Some v)
        show ?thesis
        proof (cases v)
          case (Text s)
          with t eq Inr Some assms(2) show ?thesis
            by (auto simp: ret_def throw_def json_response_def split: if_splits)
        next
          case (Blob f)
          show ?thesis
          proof (cases "prefix (str ''image/'') (file_type f)")
            case True
            with t eq Inr Some Blob have
              "processing w (new_S3Client ep ak sk) bucket gw
                (entry_or (form_get form (str ''name'')) (str ''My NFT''))
                (entry_or (form_get form (str ''description'')) []) f [] = (Inr res, log)"
              by simp
            with configured Inr Some Blob True show ?thesis
              by (intro that) simp_all
          next
            case False
            with t eq Inr Some Blob assms(2) show ?thesis
              by (auto simp: ret_def json_response_def)
          qed
        qed
      qed
    qed
  qed
qed


lemma POST_documents:
  assumes "d \<in> set (documents (snd (POST w env req)))"
  obtains form f c where
    "formData req = Inr form"
    "form_get form (str ''file'') = Some (Blob f)"
    "d = metadata_object (entry_or (form_get form (str ''name'')) (str ''My NFT''))
           (entry_or (form_get form (str ''description'')) []) (str ''ipfs://'' @ c) (file_type f)"
proof -
  obtain r log where t: "POST_try w env req [] = (r, log)"
    by (cases "POST_try w env req []") auto
  then have l: "snd (POST w env req) = log"
    by (cases r) (simp_all add: POST_def)
  with assms have d: "d \<in> set (documents log)" by simp
  show thesis
  proof (cases env rule: env_cases)
    case (missing key)
    with t d show ?thesis by (auto simp: POST_try_missing throw_def)
  next
    case (configured ak sk bucket ep gw)
    note eq = POST_try_configured[OF configured, of w req]
    show ?thesis
    proof (cases "formData req")
      case (Inl e)
      with t eq d show ?thesis by (auto simp: throw_def)
    next
      case (Inr form)
      show ?thesis
      proof (cases "form_get form (str ''file'')")
        case None
        with t eq Inr d show ?thesis by (auto simp: ret_def)
      next
        case (Some v)
        show ?thesis
        proof (cases v)
          case (Text s)
          with t eq Inr Some d show ?thesis
            by (auto simp: ret_def throw_def split: if_splits)
        next
          case (Blob f)
          show ?thesis
          proof (cases "prefix (str ''image/'') (file_type f)")
            case True
            with t eq Inr Some Blob have
              "processing w (new_S3Client ep ak sk) bucket gw
                (entry_or (form_get form (str ''name'')) (str ''My NFT''))
                (entry_or (form_get form (str ''description'')) []) f [] = (r, log)"
              by simp
            from processing_documents[OF this] d obtain c where
              "d = metadata_object (entry_or (form_get form (str ''name'')) (str ''My NFT''))
                 (entry_or (form_get form (str ''description'')) []) (str ''ipfs://'' @ c)
                 (file_type f)"
              by auto
            with Inr Some Blob show ?thesis by (intro that) simp_all
          next
            case False
            with t eq Inr Some Blob d show ?thesis by (auto simp: ret_def)
          qed
        qed
      qed
    qed
  qed
qed

lemma POST_no_file:
  assumes "\<And>form f. formData req = Inr form \<Longrightarrow> form_get form (str ''file'') \<noteq> Some (Blob f)"
  shows "snd (POST w env req) = [] \<and>
     (status (fst (POST w env req)) = 400 \<or> status (fst (POST w env req)) = 500) \<and>
     (\<exists>msg. field (body (fst (POST w env req))) (str ''error'') = Some (JStr msg))"
proof (cases env rule: env_cases)
  case (missing key)
  then show ?thesis
    by (simp add: POST_def POST_try_missing throw_def json_response_def error_body_def)
next
  case (configured ak sk bucket ep gw)
  note eq = POST_try_configured[OF configured, of w req]
  show ?thesis
  proof (cases "formData req")
    case (Inl e)
    with eq show ?thesis
      by (simp add: POST_def throw_def json_response_def error_body_def)
  next
    case (Inr form)
    show ?thesis
    proof (cases "form_get form (str ''file'')")
      case None
      with eq Inr show ?thesis
        by (simp add: POST_def ret_def json_response_def error_body_def)
    next
      case (Some v)
      show ?thesis
      proof (cases v)
        case (Text s)
        with eq Inr Some show ?thesis
          by (simp add: POST_def ret_def throw_def json_response_def error_body_def)
      next
        case (Blob f)
        with assms[OF Inr, of f] Some show ?thesis by simp
      qed
    qed
  qed
qed

lemma form_get_Blob_payload:
  assumes "formData req = Inr form" and "form_get form k = Some (Blob f)"
  shows "binary_payloads req \<noteq> []"
proof -
  from assms(2) have "(k, Blob f) \<in> set form"
    by (auto simp: form_get_def dest: map_of_SomeD)
  then have "f \<in> set (concat (map (entry_files \<circ> snd) form))"
    by force
  then have "concat (map (entry_files \<circ> snd) form) \<noteq> []"
    by (metis empty_iff empty_set)
  with assms(1) show ?thesis
    by (simp add: binary_payloads_def)
qed

section \<open>Runs on concrete inputs\<close>

lemmas eval_defs = POST_def POST_try_def bind_def lift_def ret_def throw_def send_def
  getCidByHead_def cid_of_head_def Let_def mustEnv_def form_get_def entry_or_def randomKey_def
  dec.simps is_space_def trim_def strip_quotes_def jor_def truthy_def str_def new_S3Client_def
  metadata_object_def upload_result_def json_response_def error_body_def Error_def TypeError_def
  or_default_def cid_missing_response_def metadata_cid_missing_response_def

lemma example_configured:
  "configured example_env (str ''AK'') (str ''SK'') (str ''nft'') (str ''https://s3.filebase.com'')
     (str ''https://ipfs.filebase.io/ipfs'')"
  by (simp add: configured_def mustEnv_def example_env_def str_def trim_def strip_quotes_def
      is_space_def)

lemma example_run:
  "POST example_world example_env example_request =
     (json_response 200
        (upload_result (str ''ipfs://QmMeta'') (str ''https://ipfs.filebase.io/ipfs/QmMeta'')
           (str ''ipfs://QmImage'') (str ''https://ipfs.filebase.io/ipfs/QmImage'')),
      [PutObjectCommand (str ''nft'') (str ''images/1723-8f3a-gun_skin.png'')
         (Bytes [137, 80, 78, 71]) (str ''image/png''),
       HeadObjectCommand (str ''nft'') (str ''images/1723-8f3a-gun_skin.png''),
       PutObjectCommand (str ''nft'') (str ''metadata/1723-8f3a-metadata.json'')
         (Utf8Json (metadata_object (Text (str ''Gun Skin #1'')) (Text (str ''test''))
            (str ''ipfs://QmImage'') (str ''image/png'')))
         (str ''application/json''),
       HeadObjectCommand (str ''nft'') (str ''metadata/1723-8f3a-metadata.json'')])"
  by (simp add: eval_defs example_world_def example_env_def example_request_def example_file_def)

lemma unnamed_run:
  "POST example_world example_env unnamed_request =
     (json_response 200
        (upload_result (str ''ipfs://QmMeta'') (str ''https://ipfs.filebase.io/ipfs/QmMeta'')
           (str ''ipfs://QmImage'') (str ''https://ipfs.filebase.io/ipfs/QmImage'')),
      [PutObjectCommand (str ''nft'') (str ''images/1723-8f3a-gun_skin.png'')
         (Bytes [137, 80, 78, 71]) (str ''image/png''),
       HeadObjectCommand (str ''nft'') (str ''images/1723-8f3a-gun_skin.png''),
       PutObjectCommand (str ''nft'') (str ''metadata/1723-8f3a-metadata.json'')
         (Utf8Json (metadata_object (Text (str ''My NFT'')) (Text [])
            (str ''ipfs://QmImage'') (str ''image/png'')))
         (str ''application/json''),
       HeadObjectCommand (str ''nft'') (str ''metadata/1723-8f3a-metadata.json'')])"
  by (simp add: eval_defs example_world_def example_env_def unnamed_request_def example_file_def)

lemma string_file_run:
  "POST example_world example_env string_file_request =
     (json_response 500 (error_body (str ''Cannot read properties of undefined (reading ''
        @ [39] @ str ''startsWith'' @ [39] @ str '')'')), [])"
  by (simp add: eval_defs example_env_def string_file_request_def)

lemma empty_unconfigured_run:
  "POST example_world Map.empty empty_request =
     (json_response 500 (error_body (str ''Missing FILEBASE_ACCESS_KEY in .env.local'')), [])"
  by (simp add: eval_defs)

lemma unparsable_run:
  "POST example_world example_env unparsable_request =
     (json_response 500 (error_body (str ''Failed to parse body as FormData.'')), [])"
  by (simp add: eval_defs example_env_def unparsable_request_def)

lemma empty_run:
  "POST example_world example_env empty_request =
     (json_response 400 (error_body (str ''File missing'')), [])"
  by (simp add: eval_defs example_env_def empty_request_def)

lemma text_file_unconfigured_run:
  "POST example_world Map.empty text_file_request =
     (json_response 500 (error_body (str ''Missing FILEBASE_ACCESS_KEY in .env.local'')), [])"
  by (simp add: eval_defs)

lemma partial_env_run:
  "POST example_world partial_env example_request =
     (json_response 500 (error_body (str ''Missing FILEBASE_BUCKET in .env.local'')), [])"
  by (simp add: eval_defs partial_env_def)

lemma failing_try:
  "POST_try failing_world example_env example_request [] =
     (Inl (Error (str ''getaddrinfo ENOTFOUND s3.filebase.com'')),
      [PutObjectCommand (str ''nft'') (str ''images/1723-8f3a-gun_skin.png'')
         (Bytes [137, 80, 78, 71]) (str ''image/png'')])"
  by (simp add: eval_defs failing_world_def example_env_def example_request_def example_file_def)

section \<open>Properties of the upload route\<close>

text \<open>
  C1. Whenever the route answers with status 200, exactly one JSON document has been written
  to the store, and it is the object with the members \<open>name\<close>, \<open>description\<close>, \<open>image\<close> and
  \<open>properties\<close>, the latter holding \<open>files\<close> (one entry with \<open>uri\<close> and \<open>type\<close>) and the
  \<open>category\<close> \<open>"image"\<close>. Its \<open>image\<close> and the \<open>uri\<close> of the file entry are the \<open>imageIpfs\<close> of the
  same response, which starts with \<open>ipfs://\<close>, and the \<open>type\<close> is the MIME type of the uploaded
  file.
\<close>

theorem metadata_document_written:
  assumes "POST w env req = (res, log)" and "status res = 200"
  shows "\<exists>form f imageIpfs.
    formData req = Inr form \<and>
    form_get form (str ''file'') = Some (Blob f) \<and>
    field (body res) (str ''imageIpfs'') = Some (JStr imageIpfs) \<and>
    prefix (str ''ipfs://'') imageIpfs \<and>
    documents log =
      [JObj
        [(str ''name'', json_of_entry (entry_or (form_get form (str ''name'')) (str ''My NFT''))),
         (str ''description'', json_of_entry (entry_or (form_get form (str ''description'')) [])),
         (str ''image'', JStr imageIpfs),
         (str ''properties'', JObj
            [(str ''files'', JArr [JObj [(str ''uri'', JStr imageIpfs),
                                         (str ''type'', JStr (file_type f))]]),
             (str ''category'', JStr (str ''image''))])]]"
proof -
  from assms obtain ak sk bucket ep gw form f where
    form: "formData req = Inr form" "form_get form (str ''file'') = Some (Blob f)" and
    run: "processing w (new_S3Client ep ak sk) bucket gw
       (entry_or (form_get form (str ''name'')) (str ''My NFT''))
       (entry_or (form_get form (str ''description'')) []) f [] = (Inr res, log)"
    by (rule POST_200_processing)
  from okD[OF run processing_ok_200] assms(2) obtain imgCid metaCid where
    res: "res = json_response 200
             (upload_result (str ''ipfs://'' @ metaCid) (gw @ str ''/'' @ metaCid)
                (str ''ipfs://'' @ imgCid) (gw @ str ''/'' @ imgCid))" and
    docs: "documents log = [metadata_object
       (entry_or (form_get form (str ''name'')) (str ''My NFT''))
       (entry_or (form_get form (str ''description'')) [])
       (str ''ipfs://'' @ imgCid) (file_type f)]"
    by auto
  have "field (body res) (str ''imageIpfs'') = Some (JStr (str ''ipfs://'' @ imgCid))"
    by (simp add: res json_response_def upload_result_def str_def)
  with form docs show ?thesis
    by (auto simp: metadata_object_def)
qed

theorem metadata_document_written_witness:
  "status (fst (POST example_world example_env example_request)) = 200 \<and>
   (\<exists>form f imageIpfs.
    formData example_request = Inr form \<and>
    form_get form (str ''file'') = Some (Blob f) \<and>
    field (body (fst (POST example_world example_env example_request))) (str ''imageIpfs'')
      = Some (JStr imageIpfs) \<and>
    prefix (str ''ipfs://'') imageIpfs \<and>
    documents (snd (POST example_world example_env example_request)) =
      [JObj
        [(str ''name'', json_of_entry (entry_or (form_get form (str ''name'')) (str ''My NFT''))),
         (str ''description'', json_of_entry (entry_or (form_get form (str ''description'')) [])),
         (str ''image'', JStr imageIpfs),
         (str ''properties'', JObj
            [(str ''files'', JArr [JObj [(str ''uri'', JStr imageIpfs),
                                         (str ''type'', JStr (file_type f))]]),
             (str ''category'', JStr (str ''image''))])]])"
proof -
  have st: "status (fst (POST example_world example_env example_request)) = 200"
    by (simp add: example_run json_response_def)
  from metadata_document_written[OF prod.collapse[symmetric] st] st
  show ?thesis by blast
qed

text \<open>
  C2. When the configuration is present, the upload is an image, the write of the image
  succeeds, its answer carries no content-identifier header and the \<open>HEAD\<close> query for the same
  key answers without an identifier, then the route answers with status 500 and an \<open>error\<close> that
  starts with \<open>CID missing\<close>. The store has received the write of the image and the \<open>HEAD\<close>
  query and nothing else: no second write is sent and no document is written.
\<close>

theorem image_cid_unresolved:
  assumes "configured env ak sk bucket ep gw"
    and "formData req = Inr form"
    and "form_get form (str ''file'') = Some (Blob f)"
    and "prefix (str ''image/'') (file_type f)"
    and "s3 = new_S3Client ep ak sk"
    and "imgKey = randomKey w 0 (str ''images'') (file_name f)"
    and "putImg = PutObjectCommand bucket imgKey (Bytes (file_bytes f)) (file_type f)"
    and "s3_send w s3 [] putImg = Inr out"
    and "header_cid out = None"
    and "s3_send w s3 [putImg] (HeadObjectCommand bucket imgKey) = Inr hout"
    and "\<not> truthy (cid_of_head hout)"
  shows "POST w env req = (cid_missing_response, [putImg, HeadObjectCommand bucket imgKey]) \<and>
    status cid_missing_response = 500 \<and>
    (\<exists>msg. field (body cid_missing_response) (str ''error'') = Some (JStr msg) \<and>
           prefix (str ''CID missing'') msg) \<and>
    filter is_put [putImg, HeadObjectCommand bucket imgKey] = [putImg] \<and>
    documents [putImg, HeadObjectCommand bucket imgKey] = []"
proof -
  have "POST_try w env req [] =
      processing w s3 bucket gw (entry_or (form_get form (str ''name'')) (str ''My NFT''))
        (entry_or (form_get form (str ''description'')) []) f []"
    using assms(2-5) by (simp add: POST_try_configured[OF assms(1)])
  also have "\<dots> = (Inr cid_missing_response, [putImg, HeadObjectCommand bucket imgKey])"
    using assms(6-11)
    by (auto simp: processing_def Let_def bind_def send_def two_tier_eq ret_def truthy_def
        metadata_cid_eq split: option.splits)
  finally have "POST w env req = (cid_missing_response, [putImg, HeadObjectCommand bucket imgKey])"
    by (rule POST_of_Inr)
  moreover have "status cid_missing_response = 500"
    by (simp add: cid_missing_response_def json_response_def)
  moreover have "\<exists>msg. field (body cid_missing_response) (str ''error'') = Some (JStr msg) \<and>
           prefix (str ''CID missing'') msg"
    by (simp add: cid_missing_response_def json_response_def str_def)
  ultimately show ?thesis
    using assms(7) by simp
qed

theorem image_cid_unresolved_witness:
  "POST silent_world example_env example_request =
     (cid_missing_response,
      [PutObjectCommand (str ''nft'') (str ''images/1723-8f3a-gun_skin.png'')
         (Bytes [137, 80, 78, 71]) (str ''image/png''),
       HeadObjectCommand (str ''nft'') (str ''images/1723-8f3a-gun_skin.png'')]) \<and>
   status cid_missing_response = 500"
proof -
  have k: "randomKey silent_world 0 (str ''images'') (str ''gun skin.png'')
      = str ''images/1723-8f3a-gun_skin.png''"
    by (simp add: randomKey_def silent_world_def str_def dec.simps is_space_def)
  have "POST silent_world example_env example_request =
     (cid_missing_response,
      [PutObjectCommand (str ''nft'') (randomKey silent_world 0 (str ''images'') (file_name example_file))
         (Bytes (file_bytes example_file)) (file_type example_file),
       HeadObjectCommand (str ''nft'') (randomKey silent_world 0 (str ''images'') (file_name example_file))]) \<and>
   status cid_missing_response = 500"
    using image_cid_unresolved[OF example_configured, of example_request _ example_file
        _ _ silent_world _ "\<lparr>Metadata = None, dollar_metadata = None\<rparr>"
        "\<lparr>Metadata = None, dollar_metadata = None\<rparr>"]
    by (simp add: example_request_def form_get_def example_file_def silent_world_def
        header_cid_def cid_of_head_def jor_def truthy_def str_def)
  then show ?thesis
    by (simp add: k example_file_def)
qed

text \<open>
  C3. For an upload that passes validation, the \<open>try\<close> block of the route is the processing of
  the specification, in which the identifier of the image and the identifier of the metadata
  object are both resolved by the one function \<open>two_tier\<close>, applied to the answer of the write
  and to the key that was written. That function first looks at the content-identifier
  header of the answer of the write and sends nothing when it finds one; only when there is
  none does it send one \<open>HEAD\<close> query for the same bucket and key, and it takes the identifier
  from the metadata of the answer of that query. What the route's \<open>getCidByHead\<close> extracts from
  that answer is, whenever it is an identifier, what the specification's lookup extracts: in
  particular a non-empty member \<open>cid\<close> of the object metadata is the identifier. An identifier
  found by the first tier is a non-empty value of one of the two spellings of the header.
\<close>

theorem two_tier_for_both_objects:
  assumes "configured env ak sk bucket ep gw"
    and "formData req = Inr form"
    and "form_get form (str ''file'') = Some (Blob f)"
    and "prefix (str ''image/'') (file_type f)"
  shows "POST_try w env req =
      processing w (new_S3Client ep ak sk) bucket gw
        (entry_or (form_get form (str ''name'')) (str ''My NFT''))
        (entry_or (form_get form (str ''description'')) []) f \<and>
    (\<forall>s3 b key out log.
       two_tier w s3 b key out log =
         (case header_cid out of
            Some c \<Rightarrow> (Inr (Some c), log)
          | None \<Rightarrow>
              (map_sum id metadata_cid (s3_send w s3 log (HeadObjectCommand b key)),
               log @ [HeadObjectCommand b key]))) \<and>
    (\<forall>h. metadata_cid h = (if truthy (cid_of_head h) then cid_of_head h else None)) \<and>
    (\<forall>h m c. Metadata h = Some m \<and> m (str ''cid'') = Some c \<and> c \<noteq> []
       \<longrightarrow> cid_of_head h = Some c \<and> metadata_cid h = Some c) \<and>
    (\<forall>out c. header_cid out = Some c
       \<longrightarrow> c \<noteq> [] \<and>
           (\<exists>m hs. dollar_metadata out = Some m \<and> httpHeaders m = Some hs \<and>
              (hs (str ''x-amz-meta-cid'') = Some c \<or> hs (str ''X-Amz-Meta-Cid'') = Some c)))"
proof -
  have refines: "POST_try w env req =
      processing w (new_S3Client ep ak sk) bucket gw
        (entry_or (form_get form (str ''name'')) (str ''My NFT''))
        (entry_or (form_get form (str ''description'')) []) f"
    using assms(2-4) by (simp add: POST_try_configured[OF assms(1)])
  have object_cid: "cid_of_head h = Some c \<and> metadata_cid h = Some c"
    if "Metadata h = Some m \<and> m (str ''cid'') = Some c \<and> c \<noteq> []" for h m c
    using that by (simp add: metadata_cid_def cid_of_head_def Let_def jor_def truthy_def)
  have header: "c \<noteq> [] \<and>
           (\<exists>m hs. dollar_metadata out = Some m \<and> httpHeaders m = Some hs \<and>
              (hs (str ''x-amz-meta-cid'') = Some c \<or> hs (str ''X-Amz-Meta-Cid'') = Some c))"
    if "header_cid out = Some c" for out c
    using that by (auto simp: header_cid_def truthy_def split: option.splits if_splits)
  show ?thesis
  proof (intro conjI)
    show "POST_try w env req =
      processing w (new_S3Client ep ak sk) bucket gw
        (entry_or (form_get form (str ''name'')) (str ''My NFT''))
        (entry_or (form_get form (str ''description'')) []) f"
      by (rule refines)
    show "\<forall>s3 b key out log.
       two_tier w s3 b key out log =
         (case header_cid out of
            Some c \<Rightarrow> (Inr (Some c), log)
          | None \<Rightarrow>
              (map_sum id metadata_cid (s3_send w s3 log (HeadObjectCommand b key)),
               log @ [HeadObjectCommand b key]))"
      by (simp add: two_tier_eq)
    show "\<forall>h. metadata_cid h = (if truthy (cid_of_head h) then cid_of_head h else None)"
      by (simp add: metadata_cid_eq)
    show "\<forall>h m c. Metadata h = Some m \<and> m (str ''cid'') = Some c \<and> c \<noteq> []
       \<longrightarrow> cid_of_head h = Some c \<and> metadata_cid h = Some c"
      using object_cid by blast
    show "\<forall>out c. header_cid out = Some c
       \<longrightarrow> c \<noteq> [] \<and>
           (\<exists>m hs. dollar_metadata out = Some m \<and> httpHeaders m = Some hs \<and>
              (hs (str ''x-amz-meta-cid'') = Some c \<or> hs (str ''X-Amz-Meta-Cid'') = Some c))"
      using header by blast
  qed
qed

theorem two_tier_for_both_objects_witness:
  "configured example_env (str ''AK'') (str ''SK'') (str ''nft'') (str ''https://s3.filebase.com'')
     (str ''https://ipfs.filebase.io/ipfs'') \<and>
   formData example_request = Inr
     [(str ''file'', Blob example_file),
      (str ''name'', Text (str ''Gun Skin #1'')),
      (str ''description'', Text (str ''test''))] \<and>
   prefix (str ''image/'') (file_type example_file) \<and>
   POST_try example_world example_env example_request =
     processing example_world (new_S3Client (str ''https://s3.filebase.com'') (str ''AK'') (str ''SK''))
       (str ''nft'') (str ''https://ipfs.filebase.io/ipfs'')
       (Text (str ''Gun Skin #1'')) (Text (str ''test'')) example_file \<and>
   cid_of_head \<lparr>Metadata = Some ([str ''cid'' \<mapsto> str ''QmImage'']), dollar_metadata = None\<rparr>
     = Some (str ''QmImage'') \<and>
   two_tier example_world (new_S3Client (str ''https://s3.filebase.com'') (str ''AK'') (str ''SK''))
       (str ''nft'') (str ''images/1723-8f3a-gun_skin.png'')
       \<lparr>Metadata = None, dollar_metadata = Some \<lparr>httpHeaders = None\<rparr>\<rparr> []
     = (Inr (Some (str ''QmImage'')),
        [HeadObjectCommand (str ''nft'') (str ''images/1723-8f3a-gun_skin.png'')]) \<and>
   header_cid \<lparr>Metadata = None, dollar_metadata = Some
       \<lparr>httpHeaders = Some ([str ''x-amz-meta-cid'' \<mapsto> str ''QmHeader''])\<rparr>\<rparr>
     = Some (str ''QmHeader'') \<and>
   two_tier example_world (new_S3Client (str ''https://s3.filebase.com'') (str ''AK'') (str ''SK''))
       (str ''nft'') (str ''images/1723-8f3a-gun_skin.png'')
       \<lparr>Metadata = None, dollar_metadata = Some
         \<lparr>httpHeaders = Some ([str ''x-amz-meta-cid'' \<mapsto> str ''QmHeader''])\<rparr>\<rparr> []
     = (Inr (Some (str ''QmHeader'')), [])"
proof -
  have form: "formData example_request = Inr
     [(str ''file'', Blob example_file),
      (str ''name'', Text (str ''Gun Skin #1'')),
      (str ''description'', Text (str ''test''))]"
    by (simp add: example_request_def)
  have fl: "form_get [(str ''file'', Blob example_file),
      (str ''name'', Text (str ''Gun Skin #1'')),
      (str ''description'', Text (str ''test''))] (str ''file'') = Some (Blob example_file)"
    by (simp add: form_get_def)
  have img: "prefix (str ''image/'') (file_type example_file)"
    by (simp add: example_file_def str_def)
  note t = two_tier_for_both_objects[OF example_configured form fl img, of example_world]
  from t[THEN conjunct1] have refines: "POST_try example_world example_env example_request =
     processing example_world (new_S3Client (str ''https://s3.filebase.com'') (str ''AK'') (str ''SK''))
       (str ''nft'') (str ''https://ipfs.filebase.io/ipfs'')
       (Text (str ''Gun Skin #1'')) (Text (str ''test'')) example_file"
    by (simp add: form_get_def entry_or_def str_def)
  have put: "header_cid \<lparr>Metadata = None, dollar_metadata = Some \<lparr>httpHeaders = None\<rparr>\<rparr> = None"
    by (simp add: header_cid_def)
  have answer: "s3_send example_world
      (new_S3Client (str ''https://s3.filebase.com'') (str ''AK'') (str ''SK'')) []
      (HeadObjectCommand (str ''nft'') (str ''images/1723-8f3a-gun_skin.png''))
    = Inr \<lparr>Metadata = Some ([str ''cid'' \<mapsto> str ''QmImage'']), dollar_metadata = None\<rparr>"
    by (simp add: example_world_def str_def)
  have member: "[str ''cid'' \<mapsto> str ''QmImage''] (str ''cid'') = Some (str ''QmImage'')"
    "str ''QmImage'' \<noteq> []"
    by (simp_all add: str_def)
  from t[THEN conjunct2, THEN conjunct2, THEN conjunct2, THEN conjunct1] have
    "Metadata \<lparr>Metadata = Some ([str ''cid'' \<mapsto> str ''QmImage'']), dollar_metadata = None\<rparr>
       = Some ([str ''cid'' \<mapsto> str ''QmImage'']) \<and>
     [str ''cid'' \<mapsto> str ''QmImage''] (str ''cid'') = Some (str ''QmImage'') \<and>
     str ''QmImage'' \<noteq> [] \<longrightarrow>
     cid_of_head \<lparr>Metadata = Some ([str ''cid'' \<mapsto> str ''QmImage'']), dollar_metadata = None\<rparr>
       = Some (str ''QmImage'') \<and>
     metadata_cid \<lparr>Metadata = Some ([str ''cid'' \<mapsto> str ''QmImage'']), dollar_metadata = None\<rparr>
       = Some (str ''QmImage'')"
    by blast
  with member have extracted:
    "cid_of_head \<lparr>Metadata = Some ([str ''cid'' \<mapsto> str ''QmImage'']), dollar_metadata = None\<rparr>
       = Some (str ''QmImage'')"
    "metadata_cid \<lparr>Metadata = Some ([str ''cid'' \<mapsto> str ''QmImage'']), dollar_metadata = None\<rparr>
       = Some (str ''QmImage'')"
    by simp_all
  from t[THEN conjunct2, THEN conjunct1] have unfolded: "two_tier example_world s3 b key out log =
         (case header_cid out of
            Some c \<Rightarrow> (Inr (Some c), log)
          | None \<Rightarrow>
              (map_sum id metadata_cid (s3_send example_world s3 log (HeadObjectCommand b key)),
               log @ [HeadObjectCommand b key]))" for s3 b key out log
    by blast
  have second: "two_tier example_world
       (new_S3Client (str ''https://s3.filebase.com'') (str ''AK'') (str ''SK''))
       (str ''nft'') (str ''images/1723-8f3a-gun_skin.png'')
       \<lparr>Metadata = None, dollar_metadata = Some \<lparr>httpHeaders = None\<rparr>\<rparr> []
     = (Inr (Some (str ''QmImage'')),
        [HeadObjectCommand (str ''nft'') (str ''images/1723-8f3a-gun_skin.png'')])"
    by (simp add: unfolded put answer extracted)
  have hdr: "header_cid \<lparr>Metadata = None, dollar_metadata = Some
       \<lparr>httpHeaders = Some ([str ''x-amz-meta-cid'' \<mapsto> str ''QmHeader''])\<rparr>\<rparr>
     = Some (str ''QmHeader'')"
    by (simp add: header_cid_def truthy_def str_def)
  have first: "two_tier example_world
       (new_S3Client (str ''https://s3.filebase.com'') (str ''AK'') (str ''SK''))
       (str ''nft'') (str ''images/1723-8f3a-gun_skin.png'')
       \<lparr>Metadata = None, dollar_metadata = Some
         \<lparr>httpHeaders = Some ([str ''x-amz-meta-cid'' \<mapsto> str ''QmHeader''])\<rparr>\<rparr> []
     = (Inr (Some (str ''QmHeader'')), [])"
    by (simp add: unfolded hdr)
  from example_configured form img refines extracted(1) second hdr first
  show ?thesis by blast
qed



lemma entry_or_name_nonempty: "json_of_entry (entry_or v (str ''My NFT'')) \<noteq> JStr []"
  by (auto simp: entry_or_def str_def split: option.splits entry.splits)

lemma field_metadata_object:
  "field (metadata_object nm ds i t) (str ''name'') = Some (json_of_entry nm)"
  "field (metadata_object nm ds i t) (str ''description'') = Some (json_of_entry ds)"
  by (simp_all add: metadata_object_def str_def)

text \<open>
  C10. Every JSON document that the route writes to the store carries, as its \<open>name\<close>, the
  \<open>name\<close> entry of the form or, when that entry is absent or the empty string, the default
  \<open>My NFT\<close>; so the \<open>name\<close> of a written document is never the empty string. Its \<open>description\<close>
  is the empty string when the \<open>description\<close> entry is absent or empty.
\<close>

theorem default_name_applied:
  assumes "d \<in> set (documents (snd (POST w env req)))"
  shows "\<exists>form.
    formData req = Inr form \<and>
    field d (str ''name'') =
      Some (json_of_entry (entry_or (form_get form (str ''name'')) (str ''My NFT''))) \<and>
    field d (str ''name'') \<noteq> Some (JStr []) \<and>
    (form_get form (str ''name'') = None \<or> form_get form (str ''name'') = Some (Text [])
       \<longrightarrow> field d (str ''name'') = Some (JStr (str ''My NFT''))) \<and>
    (form_get form (str ''description'') = None \<or>
     form_get form (str ''description'') = Some (Text [])
       \<longrightarrow> field d (str ''description'') = Some (JStr []))"
proof -
  from assms obtain form f c where
    form: "formData req = Inr form" and
    "form_get form (str ''file'') = Some (Blob f)" and
    d: "d = metadata_object (entry_or (form_get form (str ''name'')) (str ''My NFT''))
           (entry_or (form_get form (str ''description'')) []) (str ''ipfs://'' @ c) (file_type f)"
    by (rule POST_documents)
  have "field d (str ''name'') =
      Some (json_of_entry (entry_or (form_get form (str ''name'')) (str ''My NFT'')))"
    by (simp add: d field_metadata_object)
  moreover have "field d (str ''description'') =
      Some (json_of_entry (entry_or (form_get form (str ''description'')) []))"
    by (simp add: d field_metadata_object)
  ultimately show ?thesis
    using form entry_or_name_nonempty[of "form_get form (str ''name'')"]
    by (auto simp: entry_or_def)
qed

theorem default_name_applied_witness:
  "metadata_object (Text (str ''My NFT'')) (Text []) (str ''ipfs://QmImage'') (str ''image/png'')
     \<in> set (documents (snd (POST example_world example_env unnamed_request))) \<and>
   formData unnamed_request = Inr [(str ''file'', Blob example_file), (str ''name'', Text [])] \<and>
   form_get [(str ''file'', Blob example_file), (str ''name'', Text [])] (str ''name'')
     = Some (Text []) \<and>
   form_get [(str ''file'', Blob example_file), (str ''name'', Text [])] (str ''description'')
     = None \<and>
   field (metadata_object (Text (str ''My NFT'')) (Text []) (str ''ipfs://QmImage'')
      (str ''image/png'')) (str ''name'') = Some (JStr (str ''My NFT'')) \<and>
   field (metadata_object (Text (str ''My NFT'')) (Text []) (str ''ipfs://QmImage'')
      (str ''image/png'')) (str ''description'') = Some (JStr [])"
proof -
  have m: "metadata_object (Text (str ''My NFT'')) (Text []) (str ''ipfs://QmImage'')
      (str ''image/png'') \<in> set (documents (snd (POST example_world example_env unnamed_request)))"
    by (simp add: unnamed_run)
  have form: "formData unnamed_request
      = Inr [(str ''file'', Blob example_file), (str ''name'', Text [])]"
    by (simp add: unnamed_request_def)
  have g: "form_get [(str ''file'', Blob example_file), (str ''name'', Text [])] (str ''name'')
      = Some (Text [])"
    "form_get [(str ''file'', Blob example_file), (str ''name'', Text [])] (str ''description'')
      = None"
    by (simp_all add: form_get_def str_def)
  from default_name_applied[OF m] form g m
  show ?thesis by auto
qed

lemma POST_try_returns:
  assumes "POST_try w env req [] = (Inr res, log)"
  shows "res = json_response 400 (error_body (str ''File missing'')) \<or>
    res = json_response 400 (error_body (str ''Only image files are allowed'')) \<or>
    res = cid_missing_response \<or> res = metadata_cid_missing_response \<or>
    (\<exists>a b c d. res = json_response 200 (upload_result a b c d))"
proof (cases env rule: env_cases)
  case (missing key)
  with assms show ?thesis by (simp add: POST_try_missing throw_def)
next
  case (configured ak sk bucket ep gw)
  note eq = POST_try_configured[OF configured, of w req]
  show ?thesis
  proof (cases "formData req")
    case (Inl e)
    with assms eq show ?thesis by (simp add: throw_def)
  next
    case (Inr form)
    show ?thesis
    proof (cases "form_get form (str ''file'')")
      case None
      with assms eq Inr show ?thesis by (auto simp: ret_def)
    next
      case (Some v)
      show ?thesis
      proof (cases v)
        case (Text s)
        with assms eq Inr Some show ?thesis
          by (auto simp: ret_def throw_def split: if_splits)
      next
        case (Blob f)
        show ?thesis
        proof (cases "prefix (str ''image/'') (file_type f)")
          case True
          with assms eq Inr Some Blob have
            "processing w (new_S3Client ep ak sk) bucket gw
              (entry_or (form_get form (str ''name'')) (str ''My NFT''))
              (entry_or (form_get form (str ''description'')) []) f [] = (Inr res, log)"
            by simp
          from okD[OF this processing_ok_returns] show ?thesis by blast
        next
          case False
          with assms eq Inr Some Blob show ?thesis by (auto simp: ret_def)
        qed
      qed
    qed
  qed
qed

lemma answers_json_error:
  "answers_json (json_response 400 (error_body m))"
  "answers_json (json_response 500 (error_body m))"
  by (simp_all add: answers_json_def json_response_def error_body_def)

lemma answers_json_cid_missing:
  "answers_json cid_missing_response"
  "answers_json metadata_cid_missing_response"
  by (simp_all add: answers_json_def json_response_def error_body_def cid_missing_response_def
      metadata_cid_missing_response_def)

lemma answers_json_result: "answers_json (json_response 200 (upload_result a b c d))"
  by (auto simp: answers_json_def json_response_def)

text \<open>
  C8. For every environment, request and behaviour of the store, \<open>POST\<close> yields a response
  with the content type \<open>application/json\<close>: either status 200 with the upload result, or
  status 400 or 500 with a body that has an \<open>error\<close> member. Whatever is thrown inside the \<open>try\<close>
  block (by an environment lookup, by the parsing of the form, by a call of the store or by
  the resolution of an identifier) becomes a response with status 500 whose \<open>error\<close> is the
  message of the error, or \<open>Upload failed\<close> when it has none; nothing is thrown out of \<open>POST\<close>.
\<close>

theorem POST_always_json:
  "answers_json (fst (POST w env req)) \<and>
   (\<forall>e log. POST_try w env req [] = (Inl e, log) \<longrightarrow>
      POST w env req =
        (json_response 500 (error_body (or_default (message e) (str ''Upload failed''))), log))"
proof -
  obtain r log where t: "POST_try w env req [] = (r, log)"
    by (cases "POST_try w env req []") auto
  have "answers_json (fst (POST w env req))"
  proof (cases r)
    case (Inl e)
    with t show ?thesis
      by (simp add: POST_of_Inl answers_json_error)
  next
    case (Inr res)
    with t have "fst (POST w env req) = res"
      by (simp add: POST_of_Inr)
    moreover from t Inr have "POST_try w env req [] = (Inr res, log)" by simp
    note POST_try_returns[OF this]
    ultimately show ?thesis
      by (auto simp: answers_json_error answers_json_cid_missing answers_json_result)
  qed
  then show ?thesis
    by (simp add: POST_of_Inl)
qed

theorem POST_always_json_witness:
  "POST_try failing_world example_env example_request [] =
     (Inl (Error (str ''getaddrinfo ENOTFOUND s3.filebase.com'')),
      [PutObjectCommand (str ''nft'') (str ''images/1723-8f3a-gun_skin.png'')
         (Bytes [137, 80, 78, 71]) (str ''image/png'')]) \<and>
   POST failing_world example_env example_request =
     (json_response 500 (error_body (str ''getaddrinfo ENOTFOUND s3.filebase.com'')),
      [PutObjectCommand (str ''nft'') (str ''images/1723-8f3a-gun_skin.png'')
         (Bytes [137, 80, 78, 71]) (str ''image/png'')])"
  using POST_always_json[of failing_world example_env example_request] failing_try
  by (simp add: or_default_def Error_def str_def)

lemma binary_payloads_simps:
  "binary_payloads string_file_request = []"
  "binary_payloads empty_request = []"
  "binary_payloads unparsable_request = []"
  by (simp_all add: binary_payloads_def string_file_request_def empty_request_def
      unparsable_request_def)

text \<open>
  C4, as stated, fails: a request without a binary file is answered with status 500, not
  400, when its \<open>file\<close> entry is a non-empty string, when a configuration value is missing, or
  when the form cannot be parsed.
\<close>

theorem file_missing_counterexample:
  "binary_payloads string_file_request = [] \<and>
   status (fst (POST example_world example_env string_file_request)) = 500 \<and>
   binary_payloads empty_request = [] \<and>
   status (fst (POST example_world Map.empty empty_request)) = 500 \<and>
   binary_payloads unparsable_request = [] \<and>
   status (fst (POST example_world example_env unparsable_request)) = 500"
  by (simp add: binary_payloads_simps string_file_run empty_unconfigured_run unparsable_run
      json_response_def)

text \<open>
  C4, amended. When all five configuration values are present and the form of the request
  parses, a request whose \<open>file\<close> entry is absent or the empty string is answered with status
  400 and the body \<open>{error: "File missing"}\<close>, and nothing is sent to the store. And for every
  request that holds no binary file at all, whatever the configuration, nothing is sent to
  the store and the answer has status 400 or 500 and a JSON body with an \<open>error\<close> member.
\<close>

theorem file_missing_rejected:
  "(configured env ak sk bucket ep gw \<and> formData req = Inr form \<and>
    (form_get form (str ''file'') = None \<or> form_get form (str ''file'') = Some (Text []))
    \<longrightarrow> POST w env req = (json_response 400 (error_body (str ''File missing'')), [])) \<and>
   (binary_payloads req = []
    \<longrightarrow> snd (POST w env req) = [] \<and>
        (status (fst (POST w env req)) = 400 \<or> status (fst (POST w env req)) = 500) \<and>
        (\<exists>msg. field (body (fst (POST w env req))) (str ''error'') = Some (JStr msg)))"
proof -
  have absent: "POST w env req = (json_response 400 (error_body (str ''File missing'')), [])"
    if "configured env ak sk bucket ep gw" and "formData req = Inr form"
      and "form_get form (str ''file'') = None \<or> form_get form (str ''file'') = Some (Text [])"
  proof -
    from that have "POST_try w env req [] =
        (Inr (json_response 400 (error_body (str ''File missing''))), [])"
      by (auto simp: POST_try_configured ret_def)
    then show ?thesis by (rule POST_of_Inr)
  qed
  have no_payload: "snd (POST w env req) = [] \<and>
        (status (fst (POST w env req)) = 400 \<or> status (fst (POST w env req)) = 500) \<and>
        (\<exists>msg. field (body (fst (POST w env req))) (str ''error'') = Some (JStr msg))"
    if "binary_payloads req = []"
  proof -
    from that have "\<And>form f. formData req = Inr form \<Longrightarrow>
        form_get form (str ''file'') \<noteq> Some (Blob f)"
      using form_get_Blob_payload by blast
    from POST_no_file[OF this] show ?thesis by blast
  qed
  from absent no_payload show ?thesis by blast
qed

theorem file_missing_rejected_witness:
  "configured example_env (str ''AK'') (str ''SK'') (str ''nft'') (str ''https://s3.filebase.com'')
     (str ''https://ipfs.filebase.io/ipfs'') \<and>
   formData empty_request = Inr [] \<and> form_get [] (str ''file'') = None \<and>
   binary_payloads empty_request = [] \<and>
   POST example_world example_env empty_request =
     (json_response 400 (error_body (str ''File missing'')), []) \<and>
   snd (POST example_world example_env empty_request) = [] \<and>
   (status (fst (POST example_world example_env empty_request)) = 400 \<or>
    status (fst (POST example_world example_env empty_request)) = 500)"
proof -
  have f: "formData empty_request = Inr []" "form_get [] (str ''file'') = None"
    by (simp_all add: empty_request_def form_get_def)
  from file_missing_rejected[of example_env "str ''AK''" "str ''SK''" "str ''nft''"
      "str ''https://s3.filebase.com''" "str ''https://ipfs.filebase.io/ipfs''"
      empty_request "[]" example_world]
    example_configured f binary_payloads_simps(2)
  show ?thesis by blast
qed

text \<open>
  C5, as stated, fails: when a configuration value is missing, a request with a file that is
  not an image is answered with status 500 and the name of the missing key, not with 400.
\<close>

theorem non_image_counterexample:
  "formData text_file_request = Inr [(str ''file'', Blob text_file)] \<and>
   \<not> prefix (str ''image/'') (file_type text_file) \<and>
   status (fst (POST example_world Map.empty text_file_request)) = 500"
proof -
  have "formData text_file_request = Inr [(str ''file'', Blob text_file)]"
    by (simp add: text_file_request_def)
  moreover have "\<not> prefix (str ''image/'') (file_type text_file)"
    by (simp add: text_file_def str_def)
  moreover have "status (fst (POST example_world Map.empty text_file_request)) = 500"
    by (simp add: text_file_unconfigured_run json_response_def)
  ultimately show ?thesis by blast
qed

text \<open>
  C5, amended. When all five configuration values are present and the form of the request
  parses, a request whose \<open>file\<close> entry is a file with a MIME type that does not start with
  \<open>image/\<close> is answered with status 400 and the body \<open>{error: "Only image files are allowed"}\<close>,
  and nothing is sent to the store. The type is looked at after the presence of the file:
  under the same configuration a request without a \<open>file\<close> entry is answered \<open>File missing\<close>.
\<close>

theorem non_image_rejected:
  assumes "configured env ak sk bucket ep gw"
  shows "(formData req = Inr form \<and> form_get form (str ''file'') = Some (Blob f) \<and>
     \<not> prefix (str ''image/'') (file_type f)
     \<longrightarrow> POST w env req =
          (json_response 400 (error_body (str ''Only image files are allowed'')), [])) \<and>
    (formData req = Inr form \<and> form_get form (str ''file'') = None
     \<longrightarrow> POST w env req = (json_response 400 (error_body (str ''File missing'')), []))"
proof (intro conjI impI)
  assume "formData req = Inr form \<and> form_get form (str ''file'') = Some (Blob f) \<and>
     \<not> prefix (str ''image/'') (file_type f)"
  then have "POST_try w env req [] =
      (Inr (json_response 400 (error_body (str ''Only image files are allowed''))), [])"
    by (simp add: POST_try_configured[OF assms] ret_def)
  then show "POST w env req =
      (json_response 400 (error_body (str ''Only image files are allowed'')), [])"
    by (rule POST_of_Inr)
next
  assume "formData req = Inr form \<and> form_get form (str ''file'') = None"
  then have "POST_try w env req [] =
      (Inr (json_response 400 (error_body (str ''File missing''))), [])"
    by (simp add: POST_try_configured[OF assms] ret_def)
  then show "POST w env req = (json_response 400 (error_body (str ''File missing'')), [])"
    by (rule POST_of_Inr)
qed

theorem non_image_rejected_witness:
  "configured example_env (str ''AK'') (str ''SK'') (str ''nft'') (str ''https://s3.filebase.com'')
     (str ''https://ipfs.filebase.io/ipfs'') \<and>
   formData text_file_request = Inr [(str ''file'', Blob text_file)] \<and>
   form_get [(str ''file'', Blob text_file)] (str ''file'') = Some (Blob text_file) \<and>
   \<not> prefix (str ''image/'') (file_type text_file) \<and>
   POST example_world example_env text_file_request =
     (json_response 400 (error_body (str ''Only image files are allowed'')), [])"
proof -
  have f: "formData text_file_request = Inr [(str ''file'', Blob text_file)]"
    "form_get [(str ''file'', Blob text_file)] (str ''file'') = Some (Blob text_file)"
    "\<not> prefix (str ''image/'') (file_type text_file)"
    by (simp_all add: text_file_request_def form_get_def text_file_def str_def)
  from non_image_rejected[OF example_configured, of text_file_request
      "[(str ''file'', Blob text_file)]" text_file example_world]
    example_configured f
  show ?thesis by blast
qed

text \<open>
  C7, as stated, fails: loading the module reads no environment variable, so with an empty
  environment nothing fails when the process starts; the failure shows only in the answer
  to a request.
\<close>

theorem fail_fast_counterexample:
  "module_load Map.empty = Inr \<lparr>runtime = str ''nodejs''\<rparr> \<and>
   POST example_world Map.empty empty_request =
     (json_response 500 (error_body (str ''Missing FILEBASE_ACCESS_KEY in .env.local'')), [])"
  by (simp add: module_load_def empty_unconfigured_run)

text \<open>
  C7, amended. When a required configuration value (access key, secret key, bucket, endpoint
  or gateway) is absent or empty, loading the module still succeeds, and every request is
  answered with status 500 and the error \<open>Missing <key> in .env.local\<close>, where the key is the
  first of the five, in that order, whose value is absent or empty. The answer does not
  depend on the request, whose form is not read, and nothing is sent to the store: all five
  values are checked at the start of the handler, before any of them is used.
\<close>

theorem missing_configuration_reported:
  assumes "find (\<lambda>k. \<not> truthy (env k)) required_keys = Some key"
  shows "module_load env = Inr \<lparr>runtime = str ''nodejs''\<rparr> \<and>
    POST w env req =
      (json_response 500 (error_body (str ''Missing '' @ key @ str '' in .env.local'')), [])"
proof -
  have "str ''Missing '' \<noteq> []"
    by (simp add: str_def)
  then show ?thesis
    by (simp add: module_load_def POST_def POST_try_missing[OF assms] throw_def or_default_def
        Error_def)
qed

theorem missing_configuration_reported_witness:
  "find (\<lambda>k. \<not> truthy (partial_env k)) required_keys = Some (str ''FILEBASE_BUCKET'') \<and>
   POST example_world partial_env example_request =
     (json_response 500 (error_body (str ''Missing FILEBASE_BUCKET in .env.local'')), [])"
proof -
  have f: "find (\<lambda>k. \<not> truthy (partial_env k)) required_keys = Some (str ''FILEBASE_BUCKET'')"
    by (simp add: required_keys_def partial_env_def truthy_def str_def)
  from missing_configuration_reported[OF f, of example_world example_request] f
  show ?thesis by (simp add: str_def)
qed

section \<open>The page: one workflow at a time\<close>

lemma single_flight_initial: "single_flight initial_component"
  by (simp add: single_flight_def initial_component_def initial_page_def)

lemma drop_at_single: "length xs = 1 \<Longrightarrow> i < length xs \<Longrightarrow> drop_at i xs = []"
  by (cases xs) (auto simp: drop_at_def)

lemma single_flight_reject:
  "single_flight c \<Longrightarrow> i < length (inflight c) \<Longrightarrow> single_flight (fst (reject i e c))"
  by (auto simp: single_flight_def reject_def on_rejected_def drop_at_single split: if_splits)

lemma single_flight_step:
  assumes "single_flight c" and "e = Click \<longrightarrow> busy (rendered c) = busy (current c)"
  shows "single_flight (fst (step c e))"
proof (cases e)
  case Click
  with assms show ?thesis
    by (auto simp: single_flight_def button_disabled_def mintNft_def on_rejected_def Let_def
        split: option.splits if_splits)
next
  case (Upload_settled i r)
  show ?thesis
  proof (cases "i < length (inflight c) \<and> wf_phase (inflight c ! i) = Uploading")
    case True
    then have i: "i < length (inflight c)" by simp
    from assms i have b: "busy (current c)" "length (inflight c) = 1"
      by (auto simp: single_flight_def split: if_splits)
    from single_flight_reject[OF assms(1) i] b i Upload_settled True show ?thesis
      by (auto simp: upload_settled_def single_flight_def split: sum.splits option.splits)
  next
    case False
    with assms Upload_settled show ?thesis by auto
  qed
next
  case (Mint_settled i r)
  show ?thesis
  proof (cases "i < length (inflight c) \<and> wf_phase (inflight c ! i) \<noteq> Uploading")
    case True
    then have i: "i < length (inflight c)" by simp
    from assms i have b: "busy (current c)" "length (inflight c) = 1"
      by (auto simp: single_flight_def split: if_splits)
    from single_flight_reject[OF assms(1) i] b i Mint_settled True show ?thesis
      by (auto simp: mint_settled_def single_flight_def drop_at_single split: sum.splits)
  next
    case False
    with assms Mint_settled show ?thesis by auto
  qed
qed (use assms in \<open>auto simp: single_flight_def\<close>)

lemma single_flight_run:
  "single_flight c \<Longrightarrow> clicks_after_commit c es \<Longrightarrow> single_flight (run c es)"
  by (induction es arbitrary: c) (auto intro: single_flight_step)

text \<open>
  C9, as stated, fails: \<open>mintNft\<close> does not test \<open>busy\<close>, and the button is disabled only by the
  next render. After a first click a call is suspended and \<open>busy\<close> is set; a second click
  handled before the component has rendered again passes the gate, starts a second upload
  and leaves two calls suspended.
\<close>

theorem single_workflow_counterexample:
  "inflight (run initial_component
      [Wallet True (Some (str ''9xQe'')), Set_file (Some example_file), Render, Click])
     = [\<lparr>wf_name = str ''My NFT'', wf_phase = Uploading\<rparr>] \<and>
   busy (current (run initial_component
      [Wallet True (Some (str ''9xQe'')), Set_file (Some example_file), Render, Click])) \<and>
   effects initial_component
      [Wallet True (Some (str ''9xQe'')), Set_file (Some example_file), Render, Click, Click]
     = [Fetch_upload example_file (str ''My NFT'') (str ''Demo NFT on Devnet''),
        Fetch_upload example_file (str ''My NFT'') (str ''Demo NFT on Devnet'')] \<and>
   length (inflight (run initial_component
      [Wallet True (Some (str ''9xQe'')), Set_file (Some example_file), Render, Click, Click]))
     = 2"
  by (simp add: initial_component_def initial_page_def button_disabled_def mintNft_def Let_def)

text \<open>
  C9, amended. Provided every click is handled by a button that shows the current \<open>busy\<close>
  (React has rendered since \<open>busy\<close> last changed), in every state that the page reaches from
  its initial state at most one call of \<open>mintNft\<close> is suspended and \<open>busy\<close> is set while one is;
  and in such a state, once the button shows the current \<open>busy\<close>, a click changes nothing and
  starts neither an upload nor a mint.
\<close>

theorem single_workflow_in_flight:
  assumes "clicks_after_commit initial_component es"
  shows "length (inflight (run initial_component es)) \<le> 1 \<and>
    (inflight (run initial_component es) \<noteq> [] \<longrightarrow> busy (current (run initial_component es))) \<and>
    (inflight (run initial_component es) \<noteq> [] \<and>
     busy (rendered (run initial_component es)) = busy (current (run initial_component es))
       \<longrightarrow> step (run initial_component es) Click = (run initial_component es, []))"
proof -
  have "single_flight (run initial_component es)"
    using single_flight_initial assms by (rule single_flight_run)
  then show ?thesis
    by (auto simp: single_flight_def button_disabled_def split: if_splits)
qed

theorem single_workflow_in_flight_witness:
  "clicks_after_commit initial_component
      [Wallet True (Some (str ''9xQe'')), Set_file (Some example_file), Render, Click, Render] \<and>
   inflight (run initial_component
      [Wallet True (Some (str ''9xQe'')), Set_file (Some example_file), Render, Click, Render])
     = [\<lparr>wf_name = str ''My NFT'', wf_phase = Uploading\<rparr>] \<and>
   busy (rendered (run initial_component
      [Wallet True (Some (str ''9xQe'')), Set_file (Some example_file), Render, Click, Render])) \<and>
   busy (current (run initial_component
      [Wallet True (Some (str ''9xQe'')), Set_file (Some example_file), Render, Click, Render])) \<and>
   effects initial_component
      [Wallet True (Some (str ''9xQe'')), Set_file (Some example_file), Render, Click, Render,
       Click]
     = [Fetch_upload example_file (str ''My NFT'') (str ''Demo NFT on Devnet'')]"
proof -
  define es where
    "es = [Wallet True (Some (str ''9xQe'')), Set_file (Some example_file), Render, Click, Render]"
  have commit: "clicks_after_commit initial_component es"
    by (simp add: es_def initial_component_def initial_page_def button_disabled_def mintNft_def
        Let_def)
  have i: "inflight (run initial_component es)
      = [\<lparr>wf_name = str ''My NFT'', wf_phase = Uploading\<rparr>]"
    by (simp add: es_def initial_component_def initial_page_def button_disabled_def mintNft_def
        Let_def)
  have r: "busy (rendered (run initial_component es))"
    by (simp add: es_def initial_component_def initial_page_def button_disabled_def mintNft_def
        Let_def)
  have b: "busy (current (run initial_component es))"
    by (simp add: es_def initial_component_def initial_page_def button_disabled_def mintNft_def
        Let_def)
  from single_workflow_in_flight[OF commit] i r b
  have c: "step (run initial_component es) Click = (run initial_component es, [])"
    by simp
  have "effects initial_component (es @ [Click])
     = [Fetch_upload example_file (str ''My NFT'') (str ''Demo NFT on Devnet'')]
       @ snd (step (run initial_component es) Click)"
    by (simp add: es_def initial_component_def initial_page_def button_disabled_def mintNft_def
        Let_def)
  with c have e: "effects initial_component (es @ [Click])
     = [Fetch_upload example_file (str ''My NFT'') (str ''Demo NFT on Devnet'')]"
    by simp
  from commit i r b e show ?thesis
    unfolding es_def by simp
qed

end
